theory Spec2Isabelle
  imports Main "HOL-Library.AList" "HOL-Library.Multiset"
begin

section \<open>Python strings\<close>

text \<open>
  A Python \<open>str\<close> is a sequence of code points. It is modelled as a \<open>string\<close> whose
  characters stand for the code points 0 to 255; text with code points above 255 is
  outside the model. The string methods below follow CPython on that range.
\<close>

definition code :: "char \<Rightarrow> nat" where
  "code c = of_char c"

definition py_isspace :: "char \<Rightarrow> bool" where
  \<comment> \<open>\<open>str.isspace\<close> on one character: TAB, LF, VT, FF, CR, FS, GS, RS, US, SPACE, NEL, NBSP.\<close>
  "py_isspace c = ((9 \<le> code c \<and> code c \<le> 13) \<or> (28 \<le> code c \<and> code c \<le> 32)
     \<or> code c = 133 \<or> code c = 160)"

definition py_strip :: "string \<Rightarrow> string" where
  \<comment> \<open>\<open>s.strip()\<close>: leading and trailing whitespace removed.\<close>
  "py_strip s = rev (dropWhile py_isspace (rev (dropWhile py_isspace s)))"

definition upper_char :: "char \<Rightarrow> string" where
  \<comment> \<open>\<open>c.upper()\<close>: a-z and the Latin-1 lower-case letters move down by 32, sharp s becomes
      SS. The micro sign (181) and y with diaeresis (255) have upper-case forms above 255,
      which the model cannot hold: they are left as they are.\<close>
  "upper_char c =
     (if 97 \<le> code c \<and> code c \<le> 122 then [char_of (code c - 32)]
      else if code c = 223 then ''SS''
      else if (224 \<le> code c \<and> code c \<le> 246) \<or> (248 \<le> code c \<and> code c \<le> 254)
        then [char_of (code c - 32)]
      else [c])"

definition py_upper :: "string \<Rightarrow> string" where
  "py_upper s = concat (map upper_char s)"

definition lower_char :: "char \<Rightarrow> char" where
  \<comment> \<open>\<open>c.lower()\<close>: A-Z and the Latin-1 upper-case letters move up by 32.\<close>
  "lower_char c =
     (if (65 \<le> code c \<and> code c \<le> 90) \<or> (192 \<le> code c \<and> code c \<le> 214)
         \<or> (216 \<le> code c \<and> code c \<le> 222)
      then char_of (code c + 32) else c)"

definition py_lower :: "string \<Rightarrow> string" where
  "py_lower s = map lower_char s"

definition py_remove :: "char \<Rightarrow> string \<Rightarrow> string" where
  \<comment> \<open>\<open>s.replace(c, "")\<close> for a one-character \<open>c\<close>.\<close>
  "py_remove c s = filter (\<lambda>x. x \<noteq> c) s"

definition SP :: char where
  "SP = CHR '' ''"

definition HYPHEN :: char where
  "HYPHEN = CHR ''-''"

definition NL :: char where
  "NL = CHR 0x0A"

definition TAB :: char where
  "TAB = CHR 0x09"

fun py_in :: "string \<Rightarrow> string \<Rightarrow> bool" where
  \<comment> \<open>\<open>sub in s\<close>: \<open>sub\<close> occurs in \<open>s\<close> as a contiguous substring.\<close>
  "py_in sub [] = (sub = [])"
| "py_in sub (c # cs) = (take (length sub) (c # cs) = sub \<or> py_in sub cs)"

subsection \<open>The two regular expressions\<close>

definition is_AZ :: "char \<Rightarrow> bool" where
  "is_AZ c = (65 \<le> code c \<and> code c \<le> 90)"

definition is_09 :: "char \<Rightarrow> bool" where
  "is_09 c = (48 \<le> code c \<and> code c \<le> 57)"

definition is_09X :: "char \<Rightarrow> bool" where
  "is_09X c = (is_09 c \<or> c = CHR ''X'')"

definition dollar :: "(string \<Rightarrow> bool) \<Rightarrow> string \<Rightarrow> bool" where
  \<comment> \<open>\<open>re.match('^...$', s)\<close>: \<open>$\<close> matches at the end of the string and also just before
      a newline that ends the string.\<close>
  "dollar body s = (body s \<or> (s \<noteq> [] \<and> last s = NL \<and> body (butlast s)))"

definition pan_body :: "string \<Rightarrow> bool" where
  \<comment> \<open>\<open>[A-Z]{5}[0-9]{4}[A-Z]{1}\<close>\<close>
  "pan_body s = (length s = 10 \<and> list_all is_AZ (take 5 s) \<and> list_all is_09 (take 4 (drop 5 s))
     \<and> list_all is_AZ (drop 9 s))"

definition aadhaar_body :: "string \<Rightarrow> bool" where
  \<comment> \<open>\<open>[0-9X]{12}\<close>\<close>
  "aadhaar_body s = (length s = 12 \<and> list_all is_09X s)"

section \<open>JSON values and exceptions\<close>

text \<open>
  What \<open>json.loads\<close> returns: \<open>None\<close>, a bool, an int, a float (\<open>JFloat m e\<close> stands for
  \<open>m * 2 ^ e\<close>), a str, a list or a dict. A dict is an association list in insertion order;
  assigning to a key replaces the value in place or appends the new key.
\<close>

datatype json =
    JNull
  | JBool bool
  | JInt int
  | JFloat int int
  | JStr string
  | JArr "json list"
  | JObj "(string \<times> json) list"

fun truthy :: "json \<Rightarrow> bool" where
  "truthy JNull = False"
| "truthy (JBool b) = b"
| "truthy (JInt i) = (i \<noteq> 0)"
| "truthy (JFloat m e) = (m \<noteq> 0)"
| "truthy (JStr s) = (s \<noteq> [])"
| "truthy (JArr xs) = (xs \<noteq> [])"
| "truthy (JObj kvs) = (kvs \<noteq> [])"

fun type_name :: "json \<Rightarrow> string" where
  "type_name JNull = ''NoneType''"
| "type_name (JBool b) = ''bool''"
| "type_name (JInt i) = ''int''"
| "type_name (JFloat m e) = ''float''"
| "type_name (JStr s) = ''str''"
| "type_name (JArr xs) = ''list''"
| "type_name (JObj kvs) = ''dict''"

text \<open>An exception is its class and \<open>str(e)\<close>.\<close>

datatype pyexc =
    AttributeError string
  | TypeError string
  | ValueError string
  | JSONDecodeError string
  | FileNotFoundError string
  | KeyError string
  | OSError string
  | HTTPException string
  | ValidationError string
  | RequestValidationError string
  | Exception string

fun str_of :: "pyexc \<Rightarrow> string" where
  "str_of (AttributeError m) = m"
| "str_of (TypeError m) = m"
| "str_of (ValueError m) = m"
| "str_of (JSONDecodeError m) = m"
| "str_of (FileNotFoundError m) = m"
| "str_of (KeyError m) = m"
| "str_of (OSError m) = m"
| "str_of (HTTPException m) = m"
| "str_of (ValidationError m) = m"
| "str_of (RequestValidationError m) = m"
| "str_of (Exception m) = m"

definition no_attribute :: "json \<Rightarrow> string \<Rightarrow> pyexc" where
  "no_attribute v a =
     AttributeError ([CHR 0x27] @ type_name v @ [CHR 0x27] @ '' object has no attribute ''
        @ [CHR 0x27] @ a @ [CHR 0x27])"

section \<open>app/services/validator.py\<close>

definition validate_pan_format :: "string \<Rightarrow> bool \<times> string" where
  "validate_pan_format pan_number =
     (if pan_number = [] then (False, ''PAN number is empty'')
      else
        let pan_number = py_upper (py_strip pan_number) in
        if \<not> dollar pan_body pan_number
        then (False, ''Invalid PAN format. Expected format: ABCDE1234F (5 letters, 4 digits, 1 letter)'')
        else (True, ''Valid PAN format''))"

definition validate_aadhaar_format :: "string \<Rightarrow> bool \<times> string" where
  "validate_aadhaar_format aadhaar_number =
     (if aadhaar_number = [] then (False, ''Aadhaar number is empty'')
      else
        let cleaned = py_remove HYPHEN (py_remove SP (py_strip aadhaar_number)) in
        if \<not> dollar aadhaar_body cleaned
        then (False, ''Invalid Aadhaar format. Expected 12 digits (may contain X for masked digits)'')
        else if cleaned = replicate 12 (CHR ''X'')
        then (False, ''Aadhaar number is completely masked'')
        else (True, ''Valid Aadhaar format''))"

text \<open>
  The two cleaners are called on whatever value the dict holds. A falsy value gives the
  empty string; on a truthy value that is not a str, \<open>.strip()\<close> raises AttributeError.
\<close>

fun clean_pan_number :: "json \<Rightarrow> pyexc + string" where
  "clean_pan_number (JStr s) =
     (if s = [] then Inr [] else Inr (py_remove SP (py_upper (py_strip s))))"
| "clean_pan_number v =
     (if \<not> truthy v then Inr [] else Inl (no_attribute v ''strip''))"

definition group4 :: "string \<Rightarrow> string" where
  \<comment> \<open>\<open>f"{cleaned[0:4]} {cleaned[4:8]} {cleaned[8:12]}"\<close>\<close>
  "group4 cleaned = take 4 cleaned @ [SP] @ take 4 (drop 4 cleaned) @ [SP] @ take 4 (drop 8 cleaned)"

fun clean_aadhaar_number :: "json \<Rightarrow> pyexc + string" where
  "clean_aadhaar_number (JStr s) =
     (if s = [] then Inr []
      else
        let cleaned = py_remove HYPHEN (py_remove SP (py_strip s)) in
        if length cleaned = 12 then Inr (group4 cleaned) else Inr cleaned)"
| "clean_aadhaar_number v =
     (if \<not> truthy v then Inr [] else Inl (no_attribute v ''strip''))"

definition str_index_error :: pyexc where
  "str_index_error = TypeError ''list indices must be integers or slices, not str''"

fun validate_extracted_data :: "json \<Rightarrow> string \<Rightarrow> pyexc + json" where
  "validate_extracted_data (JObj validated_data) document_type =
     (if document_type = ''pan'' then
        (case map_of validated_data ''pan_number'' of
           Some v \<Rightarrow>
             if truthy v then
               (case clean_pan_number v of
                  Inl e \<Rightarrow> Inl e
                | Inr pan \<Rightarrow>
                    let (is_valid, message) = validate_pan_format pan in
                    Inr (JObj (AList.update ''pan_valid'' (JBool is_valid)
                                 (AList.update ''pan_number'' (JStr pan) validated_data))))
             else Inr (JObj (AList.update ''pan_valid'' (JBool False) validated_data))
         | None \<Rightarrow> Inr (JObj (AList.update ''pan_valid'' (JBool False) validated_data)))
      else if document_type = ''aadhaar'' then
        (case map_of validated_data ''aadhaar_number'' of
           Some v \<Rightarrow>
             if truthy v then
               (case clean_aadhaar_number v of
                  Inl e \<Rightarrow> Inl e
                | Inr aadhaar \<Rightarrow>
                    let (is_valid, message) = validate_aadhaar_format aadhaar in
                    Inr (JObj (AList.update ''aadhaar_valid'' (JBool is_valid)
                                 (AList.update ''aadhaar_number'' (JStr aadhaar) validated_data))))
             else Inr (JObj (AList.update ''aadhaar_valid'' (JBool False) validated_data))
         | None \<Rightarrow> Inr (JObj (AList.update ''aadhaar_valid'' (JBool False) validated_data)))
      else Inr (JObj validated_data))"
| "validate_extracted_data (JArr validated_data) document_type =
     \<comment> \<open>a list has \<open>copy\<close>, but it cannot be indexed by a str, neither to read nor to write\<close>
     (if document_type = ''pan'' \<or> document_type = ''aadhaar'' then Inl str_index_error
      else Inr (JArr validated_data))"
| "validate_extracted_data data document_type = Inl (no_attribute data ''copy'')"

section \<open>app/services/extractor.py\<close>

subsection \<open>Searching and slicing strings\<close>

fun find_idx :: "string \<Rightarrow> string \<Rightarrow> nat option" where
  \<comment> \<open>the lowest index at which \<open>sub\<close> occurs in the string\<close>
  "find_idx sub [] = (if sub = [] then Some 0 else None)"
| "find_idx sub (c # cs) =
     (if take (length sub) (c # cs) = sub then Some 0 else map_option Suc (find_idx sub cs))"

definition py_find :: "string \<Rightarrow> string \<Rightarrow> nat \<Rightarrow> int" where
  \<comment> \<open>\<open>s.find(sub, start)\<close>: the lowest index from \<open>start\<close> on, or -1\<close>
  "py_find s sub start =
     (if length s < start then - 1
      else case find_idx sub (drop start s) of None \<Rightarrow> - 1 | Some i \<Rightarrow> int (start + i))"

definition py_rfind :: "string \<Rightarrow> string \<Rightarrow> int" where
  \<comment> \<open>\<open>s.rfind(sub)\<close>: the highest index, or -1\<close>
  "py_rfind s sub =
     (case find_idx (rev sub) (rev s) of None \<Rightarrow> - 1
      | Some i \<Rightarrow> int (length s) - int i - int (length sub))"

definition py_slice :: "string \<Rightarrow> int \<Rightarrow> int \<Rightarrow> string" where
  \<comment> \<open>\<open>s[i:j]\<close>: a negative bound counts from the end, both bounds are clamped\<close>
  "py_slice s i j =
     (let n = int (length s);
          a = (if i < 0 then max 0 (i + n) else min i n);
          b = (if j < 0 then max 0 (j + n) else min j n)
      in drop (nat a) (take (nat b) s))"

definition FENCE :: string where
  "FENCE = replicate 3 (CHR 0x60)"

definition FENCE_JSON :: string where
  "FENCE_JSON = FENCE @ ''json''"

subsection \<open>\<open>_parse_json_response\<close>\<close>

text \<open>
  \<open>json.loads\<close> is a parameter: on a string it gives the parsed value, or the message
  of the JSONDecodeError it raises.
\<close>

definition loads_or_raise :: "(string \<Rightarrow> string + json) \<Rightarrow> string \<Rightarrow> pyexc + json" where
  "loads_or_raise loads text =
     (case loads text of Inl m \<Rightarrow> Inl (JSONDecodeError m) | Inr v \<Rightarrow> Inr v)"

definition parse_json_response :: "(string \<Rightarrow> string + json) \<Rightarrow> string \<Rightarrow> pyexc + json" where
  "parse_json_response loads response_text =
     (case loads response_text of
        Inr v \<Rightarrow> Inr v
      | Inl m \<Rightarrow>
          if py_in FENCE_JSON response_text then
            (let json_start = py_find response_text FENCE_JSON 0 + 7;
                 json_end = py_find response_text FENCE (nat json_start);
                 json_text = py_strip (py_slice response_text json_start json_end)
             in loads_or_raise loads json_text)
          else if py_in FENCE response_text then
            (let json_start = py_find response_text FENCE 0 + 3;
                 json_end = py_find response_text FENCE (nat json_start);
                 json_text = py_strip (py_slice response_text json_start json_end)
             in loads_or_raise loads json_text)
          else if py_in ''{'' response_text \<and> py_in ''}'' response_text then
            (let json_start = py_find response_text ''{'' 0;
                 json_end = py_rfind response_text ''}'' + 1;
                 json_text = py_slice response_text json_start json_end
             in loads_or_raise loads json_text)
          else Inl (ValueError ''Could not parse JSON from response''))"

subsection \<open>The world outside\<close>

datatype prompt = PAN_EXTRACTION_PROMPT | AADHAAR_EXTRACTION_PROMPT | EMPTY_PROMPT

text \<open>
  An uploaded file is its name (\<open>UploadFile.filename\<close>, which may be missing) and what
  \<open>await upload_file.read()\<close> gives: the exception, or the number of bytes read.
\<close>

record upload_file =
  filename :: "string option"
  read_result :: "pyexc + nat"

text \<open>
  Settings, the model, the file system and the clock are inputs.
  \<open>query_model\<close> stands for the first half of the try block of \<open>_call_moondream_api\<close>:
  opening the image, querying the model and taking the answer text out of its reply; it
  gives the exception raised there, or the answer text. \<open>elapsed_ms\<close> is the rounded
  elapsed time read when the extraction of a path ends, \<open>now\<close> what
  \<open>datetime.now().isoformat()\<close> gives.
\<close>

record world =
  MOONDREAM_AVAILABLE :: bool
  model_loaded :: bool
  endpoint :: string
  model_name :: string
  query_model :: "string \<Rightarrow> prompt \<Rightarrow> pyexc + string"
  result_str :: string
  traceback :: "pyexc \<Rightarrow> string"
  json_loads :: "string \<Rightarrow> string + json"
  path_exists :: "string \<Rightarrow> bool"
  stat_size :: "string \<Rightarrow> pyexc + nat"
  VALIDATE_PAN_FORMAT :: bool
  VALIDATE_AADHAAR_FORMAT :: bool
  now :: string
  elapsed_ms :: "string \<Rightarrow> int"
  batch_elapsed_ms :: int
  ALLOWED_EXTENSIONS :: "string list"
  MAX_FILE_SIZE :: nat
  write_file :: "upload_file \<Rightarrow> pyexc + string"

subsection \<open>\<open>_call_moondream_api\<close>\<close>

definition api_error :: "world \<Rightarrow> string \<Rightarrow> string option \<Rightarrow> pyexc \<Rightarrow> pyexc" where
  \<comment> \<open>the except clauses, in their order; \<open>answer_text\<close> is None until the reply was read\<close>
  "api_error w image_path answer_text e =
     (case e of
        FileNotFoundError m \<Rightarrow> Exception (''Image file not found: '' @ image_path)
      | KeyError m \<Rightarrow>
          Exception (''Unexpected response format from Moondream: missing key '' @ m
            @ ''. Response was: '' @ result_str w)
      | JSONDecodeError m \<Rightarrow>
          (let answer_preview =
                 (case answer_text of
                    None \<Rightarrow> ''No answer text''
                  | Some t \<Rightarrow> if t \<noteq> [] then take 500 t else ''No answer text'')
           in Exception (''Failed to parse JSON from Moondream response. Response text: ''
                @ answer_preview @ ''...''))
      | _ \<Rightarrow>
          (let error_msg = str_of e in
           if py_in ''connect'' (py_lower error_msg) \<or> py_in ''connection'' (py_lower error_msg)
           then Exception (''Cannot connect to Moondream Station. Please ensure it'' @ [CHR 0x27]
                  @ ''s running at '' @ endpoint w @ [NL] @ ''Start it with: moondream-station'')
           else Exception (''Error calling Moondream API: '' @ error_msg @ [NL, NL]
                  @ ''Full trace:'' @ [NL] @ traceback w e)))"

definition call_moondream_api :: "world \<Rightarrow> string \<Rightarrow> prompt \<Rightarrow> pyexc + json" where
  "call_moondream_api w image_path prompt =
     (if \<not> MOONDREAM_AVAILABLE w
      then Inl (Exception ''Moondream package not installed. Install with: pip install moondream'')
      else if \<not> model_loaded w
      then Inl (Exception (''Moondream model not initialized. Please ensure Moondream Station is running at ''
             @ endpoint w))
      else
        (case query_model w image_path prompt of
           Inl e \<Rightarrow> Inl (api_error w image_path None e)
         | Inr answer_text \<Rightarrow>
             if answer_text = []
             then Inl (api_error w image_path (Some answer_text)
                         (Exception ''No response received from Moondream model''))
             else
               (case parse_json_response (json_loads w) answer_text of
                  Inl e \<Rightarrow> Inl (api_error w image_path (Some answer_text) e)
                | Inr extracted_data \<Rightarrow> Inr extracted_data)))"

subsection \<open>\<open>extract_from_image\<close>\<close>

definition get_extraction_prompt :: "string \<Rightarrow> prompt" where
  \<comment> \<open>\<open>prompts.get(document_type.lower(), "")\<close>; the two prompt texts are not empty\<close>
  "get_extraction_prompt document_type =
     (if py_lower document_type = ''pan'' then PAN_EXTRACTION_PROMPT
      else if py_lower document_type = ''aadhaar'' then AADHAAR_EXTRACTION_PROMPT
      else EMPTY_PROMPT)"

record extraction_metadata =
  processed_at :: string
  processing_time_ms :: "int option"
  model_version :: "string option"
  original_filename :: "string option"
  file_size_bytes :: "nat option"

text \<open>
  A result dict. \<open>data\<close> is \<open>JNull\<close> for Python's None; a key that the dict does not have
  (\<open>error\<close> on success; \<open>model_version\<close>, \<open>file_size_bytes\<close> and, in the batch endpoints,
  \<open>processing_time_ms\<close> on error) is None here.
\<close>

record extraction_result =
  status :: string
  document_type :: string
  data :: json
  metadata :: extraction_metadata
  error :: "string option"

definition run_extraction :: "world \<Rightarrow> string \<Rightarrow> string \<Rightarrow> pyexc + json \<times> nat" where
  \<comment> \<open>the try block up to the validated data, with the file size read on the way\<close>
  "run_extraction w image_path doc_type =
     (let prompt = get_extraction_prompt doc_type in
      if prompt = EMPTY_PROMPT then Inl (ValueError (''Unknown document type: '' @ doc_type))
      else if \<not> path_exists w image_path
      then Inl (FileNotFoundError (''Image file not found: '' @ image_path))
      else
        (case stat_size w image_path of
           Inl e \<Rightarrow> Inl e
         | Inr file_size \<Rightarrow>
             (case call_moondream_api w image_path prompt of
                Inl e \<Rightarrow> Inl e
              | Inr extracted_data \<Rightarrow>
                  if VALIDATE_PAN_FORMAT w \<or> VALIDATE_AADHAAR_FORMAT w then
                    (case validate_extracted_data extracted_data doc_type of
                       Inl e \<Rightarrow> Inl e
                     | Inr validated \<Rightarrow> Inr (validated, file_size))
                  else Inr (extracted_data, file_size))))"

definition extract_from_image ::
  "world \<Rightarrow> string \<Rightarrow> string \<Rightarrow> string option \<Rightarrow> extraction_result" where
  \<comment> \<open>saving the result to the output folder swallows its own errors and does not touch
      the response; it is left out\<close>
  "extract_from_image w image_path doc_type orig_filename =
     (case run_extraction w image_path doc_type of
        Inr (extracted_data, file_size) \<Rightarrow>
          \<lparr>status = ''success'', document_type = doc_type, data = extracted_data,
           metadata = \<lparr>processed_at = now w,
                       processing_time_ms = Some (elapsed_ms w image_path),
                       model_version =
                         Some (if model_name w \<noteq> [] then model_name w else ''moondream-station''),
                       original_filename = orig_filename,
                       file_size_bytes = Some file_size\<rparr>,
           error = None\<rparr>
      | Inl e \<Rightarrow>
          \<lparr>status = ''error'', document_type = doc_type, data = JNull,
           metadata = \<lparr>processed_at = now w,
                       processing_time_ms = Some (elapsed_ms w image_path),
                       model_version = None,
                       original_filename = orig_filename,
                       file_size_bytes = None\<rparr>,
           error = Some (str_of e)\<rparr>)"

section \<open>app/api/endpoints/extract.py: saving an upload\<close>

function decimal :: "nat \<Rightarrow> string" where
  "decimal n = (if n < 10 then [char_of (48 + n)] else decimal (n div 10) @ [char_of (48 + n mod 10)])"
  by pat_completeness auto
termination
  by (relation "measure id") auto

definition http_exception :: "nat \<Rightarrow> string \<Rightarrow> pyexc" where
  \<comment> \<open>\<open>HTTPException(status_code, detail)\<close>; its \<open>str\<close> is the status code, a colon and the detail\<close>
  "http_exception status_code detail = HTTPException (decimal status_code @ '': '' @ detail)"

fun join_comma :: "string list \<Rightarrow> string" where
  "join_comma [] = []"
| "join_comma [x] = x"
| "join_comma (x # y # ys) = x @ '', '' @ join_comma (y # ys)"

definition str_of_list :: "string list \<Rightarrow> string" where
  \<comment> \<open>\<open>str\<close> of a list of plain strings (no quotes, backslashes or control characters)\<close>
  "str_of_list xs = ''['' @ join_comma (map (\<lambda>x. [CHR 0x27] @ x @ [CHR 0x27]) xs) @ '']''"

definition allowed_file :: "world \<Rightarrow> string \<Rightarrow> bool" where
  \<comment> \<open>\<open>'.' in filename and filename.rsplit('.', 1)[1].lower() in allowed_extensions\<close>\<close>
  "allowed_file w name =
     (CHR ''.'' \<in> set name
      \<and> py_lower (rev (takeWhile (\<lambda>c. c \<noteq> CHR ''.'') (rev name))) \<in> set (ALLOWED_EXTENSIONS w))"

definition save_upload_file :: "world \<Rightarrow> upload_file \<Rightarrow> pyexc + string" where
  \<comment> \<open>the size check raises inside the try block, so its 400 comes out wrapped in the 500\<close>
  "save_upload_file w upload =
     (case filename upload of
        None \<Rightarrow> Inl (http_exception 400 ''No filename provided'')
      | Some name \<Rightarrow>
          if name = [] then Inl (http_exception 400 ''No filename provided'')
          else if \<not> allowed_file w name
          then Inl (http_exception 400
                 (''File type not allowed. Allowed types: '' @ str_of_list (ALLOWED_EXTENSIONS w)))
          else
            (case read_result upload of
               Inl e \<Rightarrow> Inl (http_exception 500 (''Error saving file: '' @ str_of e))
             | Inr n_bytes \<Rightarrow>
                 if MAX_FILE_SIZE w < n_bytes
                 then Inl (http_exception 500 (''Error saving file: ''
                        @ str_of (http_exception 400 (''File too large. Maximum size: ''
                            @ decimal (MAX_FILE_SIZE w) @ '' bytes''))))
                 else
                   (case write_file w upload of
                      Inl e \<Rightarrow> Inl (http_exception 500 (''Error saving file: '' @ str_of e))
                    | Inr file_path \<Rightarrow> Inr file_path)))"

section \<open>app/api/endpoints/batch.py\<close>

text \<open>
  \<open>BatchExtractionResponse\<close>. Its \<open>status\<close> and \<open>processing_time_ms\<close> are named
  \<open>overall_status\<close> and \<open>batch_time_ms\<close> here, the names being taken by the result dict.
\<close>

record batch_response =
  overall_status :: string
  total_documents :: int
  successful :: int
  failed :: int
  results :: "extraction_result list"
  batch_time_ms :: "int option"

definition error_result :: "world \<Rightarrow> string \<Rightarrow> string option \<Rightarrow> string \<Rightarrow> extraction_result" where
  \<comment> \<open>the error dict that both endpoints build by hand\<close>
  "error_result w doc_type name msg =
     \<lparr>status = ''error'', document_type = doc_type, data = JNull,
      metadata = \<lparr>processed_at = now w, processing_time_ms = None, model_version = None,
                  original_filename = name, file_size_bytes = None\<rparr>,
      error = Some msg\<rparr>"

definition data_is_dict_or_none :: "extraction_result \<Rightarrow> bool" where
  \<comment> \<open>\<open>data: Optional[Dict[str, Any]]\<close> of \<open>ExtractionResponse\<close>\<close>
  "data_is_dict_or_none r = (case data r of JNull \<Rightarrow> True | JObj kvs \<Rightarrow> True | _ \<Rightarrow> False)"

definition build_response :: "world \<Rightarrow> extraction_result list \<Rightarrow> pyexc + batch_response" where
  \<comment> \<open>"Calculate statistics" to the end of the try block, the same lines in both endpoints;
      building the response model validates every result dict\<close>
  "build_response w rs =
     (let succ = int (length (filter (\<lambda>r. status r = ''success'') rs));
          fail = int (length rs) - succ;
          overall =
            (if succ = int (length rs) then ''success''
             else if succ > 0 then ''partial''
             else ''error'')
      in if list_all data_is_dict_or_none rs
         then Inr \<lparr>overall_status = overall, total_documents = int (length rs),
                   successful = succ, failed = fail, results = rs,
                   batch_time_ms = Some (batch_elapsed_ms w)\<rparr>
         else Inl (ValidationError ''results.data: Input should be a valid dictionary''))"

subsection \<open>\<open>batch_extract\<close>\<close>

fun save_loop ::
  "world \<Rightarrow> string \<Rightarrow> upload_file list \<Rightarrow> extraction_result list \<Rightarrow> (string \<times> string option) list
     \<Rightarrow> extraction_result list \<times> (string \<times> string option) list" where
  "save_loop w doc_type [] rs file_paths = (rs, file_paths)"
| "save_loop w doc_type (file # files) rs file_paths =
     (case save_upload_file w file of
        Inr file_path \<Rightarrow> save_loop w doc_type files rs (file_paths @ [(file_path, filename file)])
      | Inl e \<Rightarrow>
          save_loop w doc_type files
            (rs @ [error_result w doc_type (filename file) (''Error saving file: '' @ str_of e)])
            file_paths)"

fun process_loop ::
  "world \<Rightarrow> string \<Rightarrow> (string \<times> string option) list \<Rightarrow> extraction_result list
     \<Rightarrow> extraction_result list" where
  \<comment> \<open>\<open>extract_from_image\<close> catches every exception itself: the except branch here is dead\<close>
  "process_loop w doc_type [] rs = rs"
| "process_loop w doc_type ((file_path, name) # rest) rs =
     process_loop w doc_type rest (rs @ [extract_from_image w file_path doc_type name])"

definition literal_pan_aadhaar :: "string \<Rightarrow> bool" where
  \<comment> \<open>\<open>document_type: Literal["pan", "aadhaar"]\<close>, checked before the endpoint body runs\<close>
  "literal_pan_aadhaar doc_type = (doc_type = ''pan'' \<or> doc_type = ''aadhaar'')"

definition batch_extract :: "world \<Rightarrow> upload_file list \<Rightarrow> string \<Rightarrow> pyexc + batch_response" where
  "batch_extract w files doc_type =
     (if \<not> literal_pan_aadhaar doc_type
      then Inl (RequestValidationError ''document_type: Input should be pan or aadhaar'')
      else if files = [] then Inl (http_exception 400 ''No files provided'')
      else if 50 < length files
      then Inl (http_exception 400 ''Too many files. Maximum 50 files per batch'')
      else
        (let (rs, file_paths) = save_loop w doc_type files [] [];
             rs = process_loop w doc_type file_paths rs
         in build_response w rs))"

subsection \<open>\<open>batch_extract_async\<close>\<close>

text \<open>
  \<open>asyncio.as_completed\<close> hands the tasks over in the order in which they finish. That
  order is an input: \<open>save_order\<close> lists the indices of the uploads in the order in which
  their saves finish, \<open>extract_order\<close> the indices of the saved files in the order in
  which their extractions finish. The loop counter \<open>i\<close> of \<open>enumerate\<close> counts finished
  tasks, and the source reads the filename at \<open>files[i]\<close>.
\<close>

definition completion_order :: "nat list \<Rightarrow> nat \<Rightarrow> bool" where
  "completion_order order n = (sort order = [0..<n])"

datatype saved_path = Saved string "string option" | NotSaved "string option" string

definition saved_paths_async :: "world \<Rightarrow> nat list \<Rightarrow> upload_file list \<Rightarrow> saved_path list" where
  "saved_paths_async w save_order files =
     map (\<lambda>(i, j). case save_upload_file w (files ! j) of
                      Inr file_path \<Rightarrow> Saved file_path (filename (files ! i))
                    | Inl e \<Rightarrow> NotSaved (filename (files ! i)) (str_of e))
         (enumerate 0 save_order)"

fun file_paths_of :: "saved_path list \<Rightarrow> (string \<times> string option) list" where
  "file_paths_of [] = []"
| "file_paths_of (Saved file_path name # rest) = (file_path, name) # file_paths_of rest"
| "file_paths_of (NotSaved name msg # rest) = file_paths_of rest"

fun save_errors_of :: "world \<Rightarrow> string \<Rightarrow> saved_path list \<Rightarrow> extraction_result list" where
  "save_errors_of w doc_type [] = []"
| "save_errors_of w doc_type (Saved file_path name # rest) = save_errors_of w doc_type rest"
| "save_errors_of w doc_type (NotSaved name msg # rest) =
     error_result w doc_type name msg # save_errors_of w doc_type rest"

definition batch_extract_async ::
  "world \<Rightarrow> nat list \<Rightarrow> nat list \<Rightarrow> upload_file list \<Rightarrow> string \<Rightarrow> pyexc + batch_response" where
  "batch_extract_async w save_order extract_order files doc_type =
     (if \<not> literal_pan_aadhaar doc_type
      then Inl (RequestValidationError ''document_type: Input should be pan or aadhaar'')
      else if files = [] then Inl (http_exception 400 ''No files provided'')
      else if 50 < length files
      then Inl (http_exception 400 ''Too many files. Maximum 50 files per batch'')
      else
        (let saved_paths = saved_paths_async w save_order files;
             file_paths = file_paths_of saved_paths;
             extraction_tasks =
               map (\<lambda>(file_path, name). extract_from_image w file_path doc_type name) file_paths;
             rs = map (\<lambda>j. extraction_tasks ! j) extract_order;
             rs = rs @ save_errors_of w doc_type saved_paths
         in build_response w rs))"

section \<open>A world for the examples\<close>

text \<open>
  The model is up. For the image \<open>uploads/a.jpg\<close> it answers with an empty JSON object
  after some prose, for \<open>uploads/c.jpg\<close> with braces around something that is not JSON,
  for every other image with the plain text \<open>hello\<close>; the JSON parser accepts the text
  \<open>{}\<close> only. Every path exists and is a file of 2048 bytes; every upload
  can be written, to the path \<open>uploads/\<close> followed by its name.
\<close>

definition example_world :: world where
  "example_world =
     \<lparr>MOONDREAM_AVAILABLE = True, model_loaded = True,
      endpoint = ''http://localhost:2020/v1'', model_name = ''moondream2'',
      query_model = (\<lambda>image_path prompt.
         if image_path = ''uploads/a.jpg'' then Inr ''Here it is: {}''
         else if image_path = ''uploads/c.jpg'' then Inr ''so {nope}''
         else Inr ''hello''),
      result_str = ''hello'',
      traceback = (\<lambda>e. ''Traceback (most recent call last): ValueError''),
      json_loads = (\<lambda>text.
         if text = ''{}'' then Inr (JObj []) else Inl ''Expecting value: line 1 column 1 (char 0)''),
      path_exists = (\<lambda>image_path. True),
      stat_size = (\<lambda>image_path. Inr 2048),
      VALIDATE_PAN_FORMAT = True, VALIDATE_AADHAAR_FORMAT = True,
      now = ''2025-01-01T00:00:00'',
      elapsed_ms = (\<lambda>image_path. 120),
      batch_elapsed_ms = 250,
      ALLOWED_EXTENSIONS = [''jpg'', ''jpeg'', ''png'', ''pdf''],
      MAX_FILE_SIZE = 10485760,
      write_file = (\<lambda>upload. Inr (''uploads/'' @ (case filename upload of None \<Rightarrow> [] | Some n \<Rightarrow> n)))\<rparr>"

text \<open>
  The same world with format validation switched off, a model that answers \<open>null\<close> and
  a parser that reads it.
\<close>

definition unvalidated_world :: world where
  "unvalidated_world =
     example_world
       \<lparr>VALIDATE_PAN_FORMAT := False, VALIDATE_AADHAAR_FORMAT := False,
        query_model := (\<lambda>image_path prompt. Inr ''null''),
        json_loads := (\<lambda>text. if text = ''null'' then Inr JNull else Inl ''Expecting value'')\<rparr>"

text \<open>
  And with format validation switched off, a model that answers with an empty JSON list
  and a parser that reads it.
\<close>

definition list_answer_world :: world where
  "list_answer_world =
     example_world
       \<lparr>VALIDATE_PAN_FORMAT := False, VALIDATE_AADHAAR_FORMAT := False,
        query_model := (\<lambda>image_path prompt. Inr ''[]''),
        json_loads := (\<lambda>text. if text = ''[]'' then Inr (JArr []) else Inl ''Expecting value'')\<rparr>"

text \<open>Three uploads: a picture, a text file, and a picture that cannot be read.\<close>

definition a_jpg :: upload_file where
  "a_jpg = \<lparr>filename = Some ''a.jpg'', read_result = Inr 100\<rparr>"

definition notes_txt :: upload_file where
  "notes_txt = \<lparr>filename = Some ''notes.txt'', read_result = Inr 100\<rparr>"

definition b_jpg :: upload_file where
  "b_jpg = \<lparr>filename = Some ''b.jpg'', read_result = Inl (OSError ''read failed'')\<rparr>"

section \<open>Auxiliary notions for the proofs\<close>

text \<open>A string is trimmed when \<open>strip\<close> has nothing to remove from it.\<close>

definition trimmed :: "string \<Rightarrow> bool" where
  "trimmed s = (s = [] \<or> (\<not> py_isspace (hd s) \<and> \<not> py_isspace (last s)))"

text \<open>Running the validator on its own output, an exception ending the run.\<close>

definition validate_twice :: "json \<Rightarrow> string \<Rightarrow> pyexc + json" where
  "validate_twice f t =
     (case validate_extracted_data f t of Inl e \<Rightarrow> Inl e | Inr f' \<Rightarrow> validate_extracted_data f' t)"

text \<open>The results of a batch request, none when the request was rejected.\<close>

definition results_of :: "pyexc + batch_response \<Rightarrow> extraction_result list" where
  "results_of outcome = (case outcome of Inl e \<Rightarrow> [] | Inr response \<Rightarrow> results response)"

text \<open>
  In the order of the uploads: the error results of those that cannot be saved, and the
  extraction results of those that can.
\<close>

definition save_failures :: "world \<Rightarrow> string \<Rightarrow> upload_file list \<Rightarrow> extraction_result list" where
  "save_failures w doc_type files =
     concat (map (\<lambda>file. case save_upload_file w file of
                            Inl e \<Rightarrow> [error_result w doc_type (filename file)
                                        (''Error saving file: '' @ str_of e)]
                          | Inr file_path \<Rightarrow> []) files)"

definition saved_files :: "world \<Rightarrow> upload_file list \<Rightarrow> (string \<times> string option) list" where
  "saved_files w files =
     concat (map (\<lambda>file. case save_upload_file w file of
                            Inl e \<Rightarrow> []
                          | Inr file_path \<Rightarrow> [(file_path, filename file)]) files)"

definition extractions :: "world \<Rightarrow> string \<Rightarrow> upload_file list \<Rightarrow> extraction_result list" where
  "extractions w doc_type files =
     map (\<lambda>(file_path, name). extract_from_image w file_path doc_type name) (saved_files w files)"

text \<open>
  The extraction results of the concurrent endpoint, in the order in which the saves
  finished; and the two result dicts of \<open>extract_from_image\<close>: the one that its except
  branch builds from a message, and the one that it builds from the data and the file
  size.
\<close>

definition async_extractions ::
  "world \<Rightarrow> string \<Rightarrow> nat list \<Rightarrow> upload_file list \<Rightarrow> extraction_result list" where
  "async_extractions w doc_type save_order files =
     map (\<lambda>(file_path, name). extract_from_image w file_path doc_type name)
       (file_paths_of (saved_paths_async w save_order files))"

definition failure_result ::
  "world \<Rightarrow> string \<Rightarrow> string \<Rightarrow> string option \<Rightarrow> string \<Rightarrow> extraction_result" where
  "failure_result w image_path doc_type name msg =
     \<lparr>status = ''error'', document_type = doc_type, data = JNull,
      metadata = \<lparr>processed_at = now w,
                  processing_time_ms = Some (elapsed_ms w image_path),
                  model_version = None, original_filename = name, file_size_bytes = None\<rparr>,
      error = Some msg\<rparr>"

definition success_result ::
  "world \<Rightarrow> string \<Rightarrow> string \<Rightarrow> string option \<Rightarrow> json \<Rightarrow> nat \<Rightarrow> extraction_result" where
  "success_result w image_path doc_type name d n =
     \<lparr>status = ''success'', document_type = doc_type, data = d,
      metadata = \<lparr>processed_at = now w,
                  processing_time_ms = Some (elapsed_ms w image_path),
                  model_version =
                    Some (if model_name w \<noteq> [] then model_name w else ''moondream-station''),
                  original_filename = name, file_size_bytes = Some n\<rparr>,
      error = None\<rparr>"

text \<open>The invariant of a batch response.\<close>

definition batch_invariant :: "batch_response \<Rightarrow> bool" where
  "batch_invariant r =
     (total_documents r = int (length (results r))
      \<and> successful r = int (length (filter (\<lambda>x. status x = ''success'') (results r)))
      \<and> failed r = total_documents r - successful r
      \<and> (overall_status r = ''success'' \<longleftrightarrow> failed r = 0 \<and> total_documents r > 0)
      \<and> (overall_status r = ''error'' \<longleftrightarrow> successful r = 0)
      \<and> (overall_status r = ''partial'' \<longleftrightarrow>
           \<not> (failed r = 0 \<and> total_documents r > 0) \<and> successful r \<noteq> 0))"

section \<open>Facts about the string functions\<close>

lemma code_char_of: "n < 256 \<Longrightarrow> code (char_of n) = n"
  by (simp add: code_def)

lemma code_lt: "code c < 256"
  by (simp add: code_def)

lemma dropWhile_rev_hd:
  assumes "rev (dropWhile P (rev xs)) \<noteq> []"
  shows "hd (rev (dropWhile P (rev xs))) = hd xs"
proof -
  have "rev (dropWhile P (rev xs)) @ rev (takeWhile P (rev xs))
      = rev (takeWhile P (rev xs) @ dropWhile P (rev xs))"
    by (simp only: rev_append)
  also have "\<dots> = xs" by (simp only: takeWhile_dropWhile_id rev_rev_ident)
  finally have "hd xs = hd (rev (dropWhile P (rev xs)) @ rev (takeWhile P (rev xs)))"
    by simp
  also have "\<dots> = hd (rev (dropWhile P (rev xs)))" using assms by (rule hd_append2)
  finally show ?thesis by simp
qed

lemma trimmed_strip: "trimmed (py_strip s)"
proof (cases "py_strip s = []")
  case True
  then show ?thesis by (simp add: trimmed_def)
next
  case False
  let ?d = "dropWhile py_isspace s"
  have ne: "?d \<noteq> []"
  proof
    assume "?d = []"
    then have "py_strip s = []" unfolding py_strip_def by (simp del: dropWhile_eq_Nil_conv)
    with False show False by simp
  qed
  have r: "dropWhile py_isspace (rev ?d) \<noteq> []" using False by (simp add: py_strip_def)
  have "hd (py_strip s) = hd ?d"
    using False unfolding py_strip_def by (rule dropWhile_rev_hd)
  moreover have "\<not> py_isspace (hd ?d)" using ne by (rule hd_dropWhile)
  moreover have "last (py_strip s) = hd (dropWhile py_isspace (rev ?d))"
    by (simp only: py_strip_def last_rev)
  moreover have "\<not> py_isspace (hd (dropWhile py_isspace (rev ?d)))" using r by (rule hd_dropWhile)
  ultimately show ?thesis by (simp add: trimmed_def)
qed

lemma strip_trimmed:
  assumes "trimmed s"
  shows "py_strip s = s"
proof (cases "s = []")
  case True
  then show ?thesis by (simp add: py_strip_def)
next
  case False
  with assms have h: "\<not> py_isspace (hd s)" and l: "\<not> py_isspace (last s)"
    by (auto simp: trimmed_def)
  have 1: "dropWhile py_isspace s = s" using h by (simp only: dropWhile_eq_self_iff) simp
  have "\<not> py_isspace (hd (rev s))" using l by (simp add: hd_rev)
  then have 2: "dropWhile py_isspace (rev s) = rev s"
    by (simp only: dropWhile_eq_self_iff) simp
  show ?thesis by (simp only: py_strip_def 1 2 rev_rev_ident)
qed

lemma upper_char_nonempty: "upper_char c \<noteq> []"
  by (simp add: upper_char_def)

lemma upper_char_nonspace:
  "\<not> py_isspace c \<Longrightarrow> x \<in> set (upper_char c) \<Longrightarrow> \<not> py_isspace x"
  using code_lt [of c]
  by (auto simp: upper_char_def py_isspace_def code_char_of split: if_splits)
     (simp_all add: code_def)

lemma upper_char_stable: "x \<in> set (upper_char c) \<Longrightarrow> upper_char x = [x]"
  using code_lt [of c]
  by (auto simp: upper_char_def code_char_of split: if_splits)
     (simp_all add: code_def)


lemma py_upper_Cons: "py_upper (c # s) = upper_char c @ py_upper s"
  by (simp add: py_upper_def)

lemma py_upper_snoc: "py_upper (s @ [c]) = py_upper s @ upper_char c"
  by (simp add: py_upper_def)

lemma trimmed_upper:
  assumes "trimmed s"
  shows "trimmed (py_upper s)"
proof (cases "s = []")
  case True
  then show ?thesis by (simp add: py_upper_def trimmed_def)
next
  case False
  with assms have h: "\<not> py_isspace (hd s)" and l: "\<not> py_isspace (last s)"
    by (auto simp: trimmed_def)
  from False obtain a t where s1: "s = a # t" by (cases s) auto
  from False have s2: "s = butlast s @ [last s]" by simp
  have "hd (py_upper s) = hd (upper_char a)"
    by (simp add: s1 py_upper_Cons upper_char_nonempty)
  moreover have "hd (upper_char a) \<in> set (upper_char a)"
    by (simp add: upper_char_nonempty)
  ultimately have 1: "\<not> py_isspace (hd (py_upper s))"
    using h s1 upper_char_nonspace [of a] by simp
  have "py_upper s = py_upper (butlast s) @ upper_char (last s)"
    using s2 py_upper_snoc [of "butlast s" "last s"] by simp
  then have "last (py_upper s) = last (upper_char (last s))"
    by (simp add: upper_char_nonempty)
  moreover have "last (upper_char (last s)) \<in> set (upper_char (last s))"
    by (simp add: upper_char_nonempty)
  ultimately have 2: "\<not> py_isspace (last (py_upper s))"
    using l upper_char_nonspace [of "last s"] by simp
  show ?thesis using 1 2 by (simp add: trimmed_def)
qed

lemma SP_isspace: "py_isspace SP"
  by (simp add: py_isspace_def SP_def code_def)

lemma NL_isspace: "py_isspace NL"
  by (simp add: py_isspace_def NL_def code_def)

lemma trimmed_remove_SP:
  assumes "trimmed s"
  shows "trimmed (py_remove SP s)"
proof (cases "s = []")
  case True
  then show ?thesis by (simp add: py_remove_def trimmed_def)
next
  case False
  with assms have h: "\<not> py_isspace (hd s)" and l: "\<not> py_isspace (last s)"
    by (auto simp: trimmed_def)
  from h have h': "hd s \<noteq> SP" using SP_isspace by auto
  from l have l': "last s \<noteq> SP" using SP_isspace by auto
  from False obtain a t where s1: "s = a # t" by (cases s) auto
  from False have s2: "s = butlast s @ [last s]" by simp
  have 1: "hd (py_remove SP s) = hd s" using h' s1 by (simp add: py_remove_def)
  have "py_remove SP s = py_remove SP (butlast s) @ py_remove SP [last s]"
    using s2 unfolding py_remove_def by (metis filter_append)
  then have 2: "last (py_remove SP s) = last s" using l' by (simp add: py_remove_def)
  show ?thesis using h l 1 2 by (simp add: trimmed_def)
qed

lemma py_upper_fixed: "\<forall>c\<in>set s. upper_char c = [c] \<Longrightarrow> py_upper s = s"
  by (induction s) (simp_all add: py_upper_def)

lemma py_upper_stable: "c \<in> set (py_upper s) \<Longrightarrow> upper_char c = [c]"
  by (auto simp: py_upper_def dest: upper_char_stable)

lemma dollar_trimmed: "trimmed s \<Longrightarrow> dollar body s = body s"
  using NL_isspace by (auto simp: dollar_def trimmed_def)

lemma clean_pan_fixed:
  assumes "p = py_remove SP (py_upper (py_strip s))"
  shows "py_upper (py_strip p) = p" and "trimmed p"
proof -
  show t: "trimmed p"
    unfolding assms by (intro trimmed_remove_SP trimmed_upper trimmed_strip)
  have "\<forall>c\<in>set p. upper_char c = [c]"
    unfolding assms py_remove_def by (auto dest: py_upper_stable)
  then show "py_upper (py_strip p) = p"
    using t by (simp add: strip_trimmed py_upper_fixed)
qed

lemma validate_pan_clean:
  assumes "p = py_remove SP (py_upper (py_strip s))"
  shows "fst (validate_pan_format p) = pan_body p"
proof (cases "p = []")
  case True
  then show ?thesis by (simp add: validate_pan_format_def pan_body_def)
next
  case False
  then show ?thesis
    using clean_pan_fixed [OF assms]
    by (simp add: validate_pan_format_def dollar_trimmed)
qed

section \<open>The validator\<close>

subsection \<open>PAN numbers\<close>

lemma pan_examples:
  "validate_extracted_data (JObj [(''pan_number'', JStr ''ABCDE1234F'')]) ''pan''
     = Inr (JObj [(''pan_number'', JStr ''ABCDE1234F''), (''pan_valid'', JBool True)])"
  "validate_extracted_data (JObj [(''pan_number'', JStr ''abc de1234f'')]) ''pan''
     = Inr (JObj [(''pan_number'', JStr ''ABCDE1234F''), (''pan_valid'', JBool True)])"
  "validate_extracted_data (JObj [(''pan_number'', JStr ''ABC123'')]) ''pan''
     = Inr (JObj [(''pan_number'', JStr ''ABC123''), (''pan_valid'', JBool False)])"
  by code_simp+

text \<open>
  Claim C5. With document type \<open>pan\<close>, a mapping whose \<open>pan_number\<close> is a non-empty
  string \<open>s\<close> gets back \<open>pan_number\<close> trimmed, upper-cased and without spaces, and
  \<open>pan_valid\<close> is true exactly when that normalised value is five letters A-Z, four digits
  and one letter A-Z, ten characters in all. When \<open>pan_number\<close> is absent or the empty
  string, \<open>pan_valid\<close> is false, \<open>pan_number\<close> stays as it was and nothing is raised.
  \<open>ABCDE1234F\<close> is valid and unchanged, \<open>abc de1234f\<close> becomes \<open>ABCDE1234F\<close> and is
  valid, \<open>ABC123\<close> is invalid.
\<close>

theorem pan_number_validation:
  "(map_of d ''pan_number'' = Some (JStr s) \<and> s \<noteq> [] \<longrightarrow>
      validate_extracted_data (JObj d) ''pan'' =
        Inr (JObj (AList.update ''pan_valid''
                     (JBool (pan_body (py_remove SP (py_upper (py_strip s)))))
                     (AList.update ''pan_number''
                        (JStr (py_remove SP (py_upper (py_strip s)))) d))))
   \<and> (map_of d ''pan_number'' = None \<or> map_of d ''pan_number'' = Some (JStr []) \<longrightarrow>
      validate_extracted_data (JObj d) ''pan'' =
        Inr (JObj (AList.update ''pan_valid'' (JBool False) d))
      \<and> map_of (AList.update ''pan_valid'' (JBool False) d) ''pan_number''
          = map_of d ''pan_number'')
   \<and> validate_extracted_data (JObj [(''pan_number'', JStr ''ABCDE1234F'')]) ''pan''
       = Inr (JObj [(''pan_number'', JStr ''ABCDE1234F''), (''pan_valid'', JBool True)])
   \<and> validate_extracted_data (JObj [(''pan_number'', JStr ''abc de1234f'')]) ''pan''
       = Inr (JObj [(''pan_number'', JStr ''ABCDE1234F''), (''pan_valid'', JBool True)])
   \<and> validate_extracted_data (JObj [(''pan_number'', JStr ''ABC123'')]) ''pan''
       = Inr (JObj [(''pan_number'', JStr ''ABC123''), (''pan_valid'', JBool False)])"
proof (intro conjI impI)
  assume a: "map_of d ''pan_number'' = Some (JStr s) \<and> s \<noteq> []"
  define p where "p = py_remove SP (py_upper (py_strip s))"
  have "fst (validate_pan_format p) = pan_body p"
    using p_def by (rule validate_pan_clean)
  then show "validate_extracted_data (JObj d) ''pan'' =
        Inr (JObj (AList.update ''pan_valid''
                     (JBool (pan_body (py_remove SP (py_upper (py_strip s)))))
                     (AList.update ''pan_number''
                        (JStr (py_remove SP (py_upper (py_strip s)))) d)))"
    using a by (simp add: p_def [symmetric] case_prod_beta)
next
  assume "map_of d ''pan_number'' = None \<or> map_of d ''pan_number'' = Some (JStr [])"
  then show "validate_extracted_data (JObj d) ''pan'' =
        Inr (JObj (AList.update ''pan_valid'' (JBool False) d))"
    by auto
next
  show "map_of (AList.update ''pan_valid'' (JBool False) d) ''pan_number''
          = map_of d ''pan_number''"
    by (simp add: update_conv')
qed (rule pan_examples)+

theorem pan_number_validation_witness:
  "map_of [(''pan_number'', JStr ''abc de1234f''), (''name'', JStr ''A B'')] ''pan_number''
      = Some (JStr ''abc de1234f'')
   \<and> ''abc de1234f'' \<noteq> []
   \<and> validate_extracted_data
        (JObj [(''pan_number'', JStr ''abc de1234f''), (''name'', JStr ''A B'')]) ''pan''
      = Inr (JObj [(''pan_number'', JStr ''ABCDE1234F''), (''name'', JStr ''A B''),
                   (''pan_valid'', JBool True)])"
proof -
  have n: "py_remove SP (py_upper (py_strip ''abc de1234f'')) = ''ABCDE1234F''"
    by code_simp
  have b: "pan_body ''ABCDE1234F''" by code_simp
  have h: "map_of [(''pan_number'', JStr ''abc de1234f''), (''name'', JStr ''A B'')] ''pan_number''
      = Some (JStr ''abc de1234f'') \<and> ''abc de1234f'' \<noteq> []" by simp
  from pan_number_validation
    [of "[(''pan_number'', JStr ''abc de1234f''), (''name'', JStr ''A B'')]" "''abc de1234f''"]
  have "validate_extracted_data
        (JObj [(''pan_number'', JStr ''abc de1234f''), (''name'', JStr ''A B'')]) ''pan''
      = Inr (JObj (AList.update ''pan_valid'' (JBool (pan_body ''ABCDE1234F''))
                     (AList.update ''pan_number'' (JStr ''ABCDE1234F'')
                        [(''pan_number'', JStr ''abc de1234f''), (''name'', JStr ''A B'')])))"
    using h unfolding n by blast
  then show ?thesis using h b by simp
qed

subsection \<open>Aadhaar numbers\<close>

lemma remove_no_char: "c \<notin> set (py_remove c s)"
  by (simp add: py_remove_def)

lemma remove_keeps_out: "c \<notin> set s \<Longrightarrow> c \<notin> set (py_remove d s)"
  by (simp add: py_remove_def)

lemma aadhaar_examples:
  "validate_extracted_data (JObj [(''aadhaar_number'', JStr ''XXXXXXXXXXXX'')]) ''aadhaar''
     = Inr (JObj [(''aadhaar_number'', JStr ''XXXX XXXX XXXX''), (''aadhaar_valid'', JBool False)])"
  "validate_extracted_data (JObj [(''aadhaar_number'', JStr ''1234567890123'')]) ''aadhaar''
     = Inr (JObj [(''aadhaar_number'', JStr ''1234567890123''), (''aadhaar_valid'', JBool False)])"
  by code_simp+

text \<open>
  Claim C10. With document type \<open>aadhaar\<close>, a mapping whose \<open>aadhaar_number\<close> is a
  non-empty string always gets the field overwritten with the cleaned value, whatever
  \<open>aadhaar_valid\<close> turns out to be: the value is trimmed, spaces and hyphens are removed,
  and when exactly 12 characters remain they are regrouped as three groups of four
  separated by single spaces; otherwise the cleaned string is stored ungrouped. The fully
  masked \<open>XXXXXXXXXXXX\<close> comes back as \<open>XXXX XXXX XXXX\<close> with \<open>aadhaar_valid\<close> false, and
  thirteen digits come back ungrouped.
\<close>

theorem aadhaar_number_overwritten:
  "(map_of d ''aadhaar_number'' = Some (JStr s) \<and> s \<noteq> [] \<longrightarrow>
      (let cleaned = py_remove HYPHEN (py_remove SP (py_strip s));
           stored = (if length cleaned = 12
                     then take 4 cleaned @ [SP] @ take 4 (drop 4 cleaned) @ [SP] @ drop 8 cleaned
                     else cleaned)
       in validate_extracted_data (JObj d) ''aadhaar'' =
            Inr (JObj (AList.update ''aadhaar_valid'' (JBool (fst (validate_aadhaar_format stored)))
                         (AList.update ''aadhaar_number'' (JStr stored) d)))
          \<and> SP \<notin> set cleaned \<and> HYPHEN \<notin> set cleaned))
   \<and> validate_extracted_data (JObj [(''aadhaar_number'', JStr ''XXXXXXXXXXXX'')]) ''aadhaar''
       = Inr (JObj [(''aadhaar_number'', JStr ''XXXX XXXX XXXX''), (''aadhaar_valid'', JBool False)])
   \<and> validate_extracted_data (JObj [(''aadhaar_number'', JStr ''1234567890123'')]) ''aadhaar''
       = Inr (JObj [(''aadhaar_number'', JStr ''1234567890123''), (''aadhaar_valid'', JBool False)])"
proof (intro conjI impI)
  assume a: "map_of d ''aadhaar_number'' = Some (JStr s) \<and> s \<noteq> []"
  define c where "c = py_remove HYPHEN (py_remove SP (py_strip s))"
  have 1: "SP \<notin> set c" unfolding c_def by (intro remove_keeps_out remove_no_char)
  have 2: "HYPHEN \<notin> set c" unfolding c_def by (rule remove_no_char)
  have 3: "length c = 12 \<Longrightarrow> take 4 (drop 8 c) = drop 8 c" by simp
  show "let cleaned = py_remove HYPHEN (py_remove SP (py_strip s));
           stored = (if length cleaned = 12
                     then take 4 cleaned @ [SP] @ take 4 (drop 4 cleaned) @ [SP] @ drop 8 cleaned
                     else cleaned)
       in validate_extracted_data (JObj d) ''aadhaar'' =
            Inr (JObj (AList.update ''aadhaar_valid'' (JBool (fst (validate_aadhaar_format stored)))
                         (AList.update ''aadhaar_number'' (JStr stored) d)))
          \<and> SP \<notin> set cleaned \<and> HYPHEN \<notin> set cleaned"
    using a 1 2 3 by (simp add: c_def [symmetric] Let_def case_prod_beta group4_def)
qed (rule aadhaar_examples)+

theorem aadhaar_number_overwritten_witness:
  "map_of [(''aadhaar_number'', JStr ''12-34-5678 9012'')] ''aadhaar_number''
      = Some (JStr ''12-34-5678 9012'')
   \<and> ''12-34-5678 9012'' \<noteq> []
   \<and> validate_extracted_data (JObj [(''aadhaar_number'', JStr ''12-34-5678 9012'')]) ''aadhaar''
      = Inr (JObj [(''aadhaar_number'', JStr ''1234 5678 9012''), (''aadhaar_valid'', JBool True)])"
proof -
  have n: "py_remove HYPHEN (py_remove SP (py_strip ''12-34-5678 9012'')) = ''123456789012''"
    by code_simp
  have v: "fst (validate_aadhaar_format ''1234 5678 9012'')" by code_simp
  have h: "map_of [(''aadhaar_number'', JStr ''12-34-5678 9012'')] ''aadhaar_number''
      = Some (JStr ''12-34-5678 9012'') \<and> ''12-34-5678 9012'' \<noteq> []" by simp
  from aadhaar_number_overwritten
    [of "[(''aadhaar_number'', JStr ''12-34-5678 9012'')]" "''12-34-5678 9012''"]
  have "validate_extracted_data (JObj [(''aadhaar_number'', JStr ''12-34-5678 9012'')]) ''aadhaar''
      = Inr (JObj (AList.update ''aadhaar_valid'' (JBool (fst (validate_aadhaar_format ''1234 5678 9012'')))
                     (AList.update ''aadhaar_number'' (JStr ''1234 5678 9012'')
                        [(''aadhaar_number'', JStr ''12-34-5678 9012'')])))"
    using h unfolding n Let_def by (simp add: SP_def)
  then show ?thesis using h v by simp
qed

text \<open>
  Claim C4 says that \<open>aadhaar_valid\<close> is true exactly when the cleaned value (trimmed,
  spaces and hyphens removed) is 12 characters, each a digit or \<open>X\<close>, and not all \<open>X\<close>,
  and that a valid number is stored regrouped in fours. \<open>validate_extracted_data\<close> cleans
  with \<open>clean_aadhaar_number\<close> and then validates the cleaned value with
  \<open>validate_aadhaar_format\<close>, which trims once more. Trimming comes before the hyphens
  are removed, so whitespace next to an outer hyphen survives the first cleaning and is
  trimmed away only inside the validation. For the input hyphen, TAB, \<open>123456789012\<close>
  the cleaned value has 13 characters, it is stored ungrouped with the TAB in front, and
  \<open>aadhaar_valid\<close> is nevertheless true; \<open>validate_aadhaar_format\<close> on the raw input
  rejects it.
\<close>

theorem aadhaar_hidden_whitespace_accepted:
  "validate_extracted_data
      (JObj [(''aadhaar_number'', JStr (HYPHEN # TAB # ''123456789012''))]) ''aadhaar''
     = Inr (JObj [(''aadhaar_number'', JStr (TAB # ''123456789012'')),
                  (''aadhaar_valid'', JBool True)])
   \<and> length (py_remove HYPHEN (py_remove SP (py_strip (HYPHEN # TAB # ''123456789012'')))) = 13
   \<and> fst (validate_aadhaar_format (HYPHEN # TAB # ''123456789012'')) = False"
  by code_simp

subsection \<open>The validator as a whole\<close>

text \<open>
  Claim C7 says that validating twice gives what validating once gives. For the same
  input as above the first pass stores TAB followed by twelve digits, and the second pass
  trims that TAB, finds 12 characters and stores the regrouped \<open>1234 5678 9012\<close>: the two
  results differ in \<open>aadhaar_number\<close>.
\<close>

theorem validator_second_pass_differs:
  "validate_extracted_data
      (JObj [(''aadhaar_number'', JStr (HYPHEN # TAB # ''123456789012''))]) ''aadhaar''
     = Inr (JObj [(''aadhaar_number'', JStr (TAB # ''123456789012'')),
                  (''aadhaar_valid'', JBool True)])
   \<and> validate_twice
      (JObj [(''aadhaar_number'', JStr (HYPHEN # TAB # ''123456789012''))]) ''aadhaar''
     = Inr (JObj [(''aadhaar_number'', JStr ''1234 5678 9012''),
                  (''aadhaar_valid'', JBool True)])"
  by code_simp

text \<open>
  Claim C6 says that the validator never raises, whatever the mapping holds. A truthy
  value that is not a string, such as the JSON number \<open>123456789012\<close>, reaches
  \<open>.strip()\<close> and raises AttributeError.
\<close>

theorem validator_raises_on_number:
  "validate_extracted_data (JObj [(''aadhaar_number'', JInt 123456789012)]) ''aadhaar''
     = Inl (AttributeError
         ([CHR 0x27] @ ''int'' @ [CHR 0x27] @ '' object has no attribute '' @ [CHR 0x27]
            @ ''strip'' @ [CHR 0x27]))"
  by code_simp

text \<open>
  Claim C6, amended. For every document type and every mapping whose identifying number
  for that type (\<open>pan_number\<close> for \<open>pan\<close>, \<open>aadhaar_number\<close> for \<open>aadhaar\<close>) is absent,
  falsy or a string, the validator returns a mapping and raises nothing. For the two known
  types the \<open>*_valid\<close> flag of the result is a bool; when the number is absent or falsy the
  flag is false and the number is left as it was. For any other document type the mapping
  is returned unchanged.
\<close>

theorem validator_total_on_strings:
  assumes "\<forall>v. (doc_type = ''pan'' \<and> map_of d ''pan_number'' = Some v)
              \<or> (doc_type = ''aadhaar'' \<and> map_of d ''aadhaar_number'' = Some v)
            \<longrightarrow> \<not> truthy v \<or> (\<exists>s. v = JStr s)"
  shows "\<exists>d'. validate_extracted_data (JObj d) doc_type = Inr (JObj d')
     \<and> (doc_type = ''pan'' \<longrightarrow> (\<exists>b. map_of d' ''pan_valid'' = Some (JBool b)))
     \<and> (doc_type = ''pan'' \<and> (\<forall>v. map_of d ''pan_number'' = Some v \<longrightarrow> \<not> truthy v)
          \<longrightarrow> map_of d' ''pan_valid'' = Some (JBool False)
              \<and> map_of d' ''pan_number'' = map_of d ''pan_number'')
     \<and> (doc_type = ''aadhaar'' \<longrightarrow> (\<exists>b. map_of d' ''aadhaar_valid'' = Some (JBool b)))
     \<and> (doc_type = ''aadhaar''
          \<and> (\<forall>v. map_of d ''aadhaar_number'' = Some v \<longrightarrow> \<not> truthy v)
          \<longrightarrow> map_of d' ''aadhaar_valid'' = Some (JBool False)
              \<and> map_of d' ''aadhaar_number'' = map_of d ''aadhaar_number'')
     \<and> (doc_type \<noteq> ''pan'' \<and> doc_type \<noteq> ''aadhaar'' \<longrightarrow> d' = d)"
proof (cases "doc_type = ''pan''")
  case True
  show ?thesis
  proof (cases "map_of d ''pan_number''")
    case None
    with True show ?thesis by (auto simp: update_conv')
  next
    case (Some v)
    with True assms have "\<not> truthy v \<or> (\<exists>s. v = JStr s)" by blast
    then show ?thesis
      using True Some by (auto simp: update_conv' case_prod_beta)
  qed
next
  case False
  note notpan = False
  show ?thesis
  proof (cases "doc_type = ''aadhaar''")
    case True
    show ?thesis
    proof (cases "map_of d ''aadhaar_number''")
      case None
      with True show ?thesis by (auto simp: update_conv')
    next
      case (Some v)
      with True assms have "\<not> truthy v \<or> (\<exists>s. v = JStr s)" by blast
      then show ?thesis
        using True Some by (auto simp: update_conv' case_prod_beta Let_def)
    qed
  next
    case False
    with notpan show ?thesis by simp
  qed
qed

theorem validator_total_on_strings_witness:
  "\<exists>d'. validate_extracted_data
           (JObj [(''pan_number'', JNull), (''name'', JStr ''A B'')]) ''pan'' = Inr (JObj d')
      \<and> map_of d' ''pan_valid'' = Some (JBool False)
      \<and> map_of d' ''pan_number'' = Some JNull"
  using validator_total_on_strings
    [of "''pan''" "[(''pan_number'', JNull), (''name'', JStr ''A B'')]"]
  by simp

section \<open>The example worlds, evaluated\<close>

lemma example_world_sel:
  "MOONDREAM_AVAILABLE example_world" "model_loaded example_world"
  "endpoint example_world = ''http://localhost:2020/v1''"
  "model_name example_world = ''moondream2''"
  "query_model example_world image_path prompt =
     (if image_path = ''uploads/a.jpg'' then Inr ''Here it is: {}''
      else if image_path = ''uploads/c.jpg'' then Inr ''so {nope}'' else Inr ''hello'')"
  "traceback example_world e = ''Traceback (most recent call last): ValueError''"
  "json_loads example_world = (\<lambda>text.
      if text = ''{}'' then Inr (JObj []) else Inl ''Expecting value: line 1 column 1 (char 0)'')"
  "path_exists example_world image_path" "stat_size example_world image_path = Inr 2048"
  "VALIDATE_PAN_FORMAT example_world" "VALIDATE_AADHAAR_FORMAT example_world"
  "now example_world = ''2025-01-01T00:00:00''" "elapsed_ms example_world image_path = 120"
  "batch_elapsed_ms example_world = 250"
  "ALLOWED_EXTENSIONS example_world = [''jpg'', ''jpeg'', ''png'', ''pdf'']"
  "MAX_FILE_SIZE example_world = 10485760"
  "write_file example_world upload
     = Inr (''uploads/'' @ (case filename upload of None \<Rightarrow> [] | Some n \<Rightarrow> n))"
  by (simp_all add: example_world_def)

lemma parse_hello:
  "parse_json_response (json_loads example_world) ''hello''
     = Inl (ValueError ''Could not parse JSON from response'')"
  unfolding example_world_sel by code_simp

lemma parse_braces:
  "parse_json_response (json_loads example_world) ''Here it is: {}'' = Inr (JObj [])"
  unfolding example_world_sel by code_simp

lemma not_connect:
  "\<not> py_in ''connect'' (py_lower ''Could not parse JSON from response'')"
  "\<not> py_in ''connection'' (py_lower ''Could not parse JSON from response'')"
  by code_simp+

lemma api_error_hello:
  "api_error example_world image_path (Some ''hello'')
       (ValueError ''Could not parse JSON from response'')
     = Exception (''Error calling Moondream API: Could not parse JSON from response''
         @ [NL, NL] @ ''Full trace:'' @ [NL] @ ''Traceback (most recent call last): ValueError'')"
  unfolding api_error_def
  by (simp add: not_connect Let_def example_world_sel del: py_in.simps)

lemma call_hello:
  "image_path \<noteq> ''uploads/a.jpg'' \<Longrightarrow> image_path \<noteq> ''uploads/c.jpg'' \<Longrightarrow>
   call_moondream_api example_world image_path prompt
     = Inl (Exception (''Error calling Moondream API: Could not parse JSON from response''
         @ [NL, NL] @ ''Full trace:'' @ [NL] @ ''Traceback (most recent call last): ValueError''))"
  unfolding call_moondream_api_def
  by (simp add: example_world_sel(1,2,5) parse_hello api_error_hello del: py_in.simps)

lemma prompt_pan: "get_extraction_prompt ''pan'' = PAN_EXTRACTION_PROMPT"
  by code_simp

lemma parse_nope:
  "parse_json_response (json_loads example_world) ''so {nope}''
     = Inl (JSONDecodeError ''Expecting value: line 1 column 1 (char 0)'')"
  unfolding example_world_sel by code_simp

lemma call_c_jpg:
  "call_moondream_api example_world ''uploads/c.jpg'' prompt
     = Inl (Exception (''Failed to parse JSON from Moondream response. Response text: ''
              @ ''so {nope}'' @ ''...''))"
  unfolding call_moondream_api_def
  by (simp add: example_world_sel(1,2,5) parse_nope api_error_def del: py_in.simps)

lemma unvalidated_world_sel:
  "MOONDREAM_AVAILABLE unvalidated_world" "model_loaded unvalidated_world"
  "model_name unvalidated_world = ''moondream2''"
  "query_model unvalidated_world image_path prompt = Inr ''null''"
  "json_loads unvalidated_world ''null'' = Inr JNull"
  "path_exists unvalidated_world image_path" "stat_size unvalidated_world image_path = Inr 2048"
  "\<not> VALIDATE_PAN_FORMAT unvalidated_world" "\<not> VALIDATE_AADHAAR_FORMAT unvalidated_world"
  "now unvalidated_world = ''2025-01-01T00:00:00''" "elapsed_ms unvalidated_world image_path = 120"
  by (simp_all add: unvalidated_world_def example_world_def)

lemma extract_unvalidated:
  "extract_from_image unvalidated_world image_path ''pan'' name
     = \<lparr>status = ''success'', document_type = ''pan'', data = JNull,
        metadata = \<lparr>processed_at = ''2025-01-01T00:00:00'', processing_time_ms = Some 120,
                    model_version = Some ''moondream2'', original_filename = name,
                    file_size_bytes = Some 2048\<rparr>,
        error = None\<rparr>"
proof -
  have c: "call_moondream_api unvalidated_world image_path PAN_EXTRACTION_PROMPT = Inr JNull"
    unfolding call_moondream_api_def parse_json_response_def
    by (simp add: unvalidated_world_sel del: py_in.simps)
  have r: "run_extraction unvalidated_world image_path ''pan'' = Inr (JNull, 2048)"
    unfolding run_extraction_def
    by (simp add: prompt_pan c unvalidated_world_sel)
  show ?thesis
    unfolding extract_from_image_def
    by (simp add: r unvalidated_world_sel)
qed

lemma call_a_jpg:
  "call_moondream_api example_world ''uploads/a.jpg'' prompt = Inr (JObj [])"
  unfolding call_moondream_api_def
  by (simp add: example_world_sel(1,2,5) parse_braces del: py_in.simps)

lemma validate_empty: "validate_extracted_data (JObj []) ''pan'' = Inr (JObj [(''pan_valid'', JBool False)])"
  by code_simp

lemma run_hello:
  "image_path \<noteq> ''uploads/a.jpg'' \<Longrightarrow> image_path \<noteq> ''uploads/c.jpg'' \<Longrightarrow>
   run_extraction example_world image_path ''pan''
     = Inl (Exception (''Error calling Moondream API: Could not parse JSON from response''
         @ [NL, NL] @ ''Full trace:'' @ [NL] @ ''Traceback (most recent call last): ValueError''))"
  unfolding run_extraction_def
  by (simp add: prompt_pan example_world_sel(8,9,10) call_hello)

lemma run_a_jpg:
  "run_extraction example_world ''uploads/a.jpg'' ''pan''
     = Inr (JObj [(''pan_valid'', JBool False)], 2048)"
  unfolding run_extraction_def
  by (simp add: prompt_pan example_world_sel(8,9,10) call_a_jpg validate_empty
        del: validate_extracted_data.simps)

lemma extract_hello:
  "image_path \<noteq> ''uploads/a.jpg'' \<Longrightarrow> image_path \<noteq> ''uploads/c.jpg'' \<Longrightarrow>
   extract_from_image example_world image_path ''pan'' name
     = \<lparr>status = ''error'', document_type = ''pan'', data = JNull,
        metadata = \<lparr>processed_at = ''2025-01-01T00:00:00'', processing_time_ms = Some 120,
                    model_version = None, original_filename = name, file_size_bytes = None\<rparr>,
        error = Some (''Error calling Moondream API: Could not parse JSON from response''
         @ [NL, NL] @ ''Full trace:'' @ [NL] @ ''Traceback (most recent call last): ValueError'')\<rparr>"
  unfolding extract_from_image_def
  by (simp add: run_hello example_world_sel(12,13))

lemma extract_a_jpg:
  "extract_from_image example_world ''uploads/a.jpg'' ''pan'' name
     = \<lparr>status = ''success'', document_type = ''pan'', data = JObj [(''pan_valid'', JBool False)],
        metadata = \<lparr>processed_at = ''2025-01-01T00:00:00'', processing_time_ms = Some 120,
                    model_version = Some ''moondream2'', original_filename = name,
                    file_size_bytes = Some 2048\<rparr>,
        error = None\<rparr>"
  unfolding extract_from_image_def
  by (simp add: run_a_jpg example_world_sel(4,12,13))

lemma allowed_examples:
  "allowed_file example_world ''a.jpg''" "allowed_file example_world ''b.jpg''"
  "\<not> allowed_file example_world ''notes.txt''"
  unfolding allowed_file_def example_world_sel by code_simp+

lemma decimal_codes: "decimal 400 = ''400''" "decimal 500 = ''500''"
  by code_simp+

lemma save_examples:
  "save_upload_file example_world a_jpg = Inr ''uploads/a.jpg''"
  "save_upload_file example_world b_jpg = Inl (HTTPException ''500: Error saving file: read failed'')"
  "save_upload_file example_world notes_txt
     = Inl (HTTPException (''400: File type not allowed. Allowed types: ['' @ [CHR 0x27] @ ''jpg''
         @ [CHR 0x27] @ '', '' @ [CHR 0x27] @ ''jpeg'' @ [CHR 0x27] @ '', '' @ [CHR 0x27]
         @ ''png'' @ [CHR 0x27] @ '', '' @ [CHR 0x27] @ ''pdf'' @ [CHR 0x27] @ '']''))"
  unfolding save_upload_file_def a_jpg_def b_jpg_def notes_txt_def
  by (simp_all add: allowed_examples example_world_sel(15,16,17) http_exception_def
        decimal_codes str_of_list_def del: decimal.simps)

section \<open>The response parser\<close>

text \<open>
  Claim C1 lists the fallback order of the parser and says that a failure carries a
  preview of the first 500 characters of the raw text. The parser follows that order. When
  the substring it chose does not parse, \<open>json.loads\<close> raises JSONDecodeError, and
  \<open>_call_moondream_api\<close> turns that into a message with the preview: the answer
  \<open>so {nope}\<close> shows it. When the text has no fence and no pair of braces, as in the
  answer \<open>hello\<close>, the parser raises a plain ValueError; the handler for JSONDecodeError
  does not catch it, the general handler does, and its message speaks of an error calling
  the API and carries the trace, not the text.
\<close>

theorem unparsable_answer_without_preview:
  "parse_json_response (json_loads example_world) ''hello''
     = Inl (ValueError ''Could not parse JSON from response'')
   \<and> call_moondream_api example_world ''uploads/b.jpg'' PAN_EXTRACTION_PROMPT
     = Inl (Exception (''Error calling Moondream API: Could not parse JSON from response''
              @ [NL, NL] @ ''Full trace:'' @ [NL] @ ''Traceback (most recent call last): ValueError''))
   \<and> call_moondream_api example_world ''uploads/c.jpg'' PAN_EXTRACTION_PROMPT
     = Inl (Exception (''Failed to parse JSON from Moondream response. Response text: ''
              @ ''so {nope}'' @ ''...''))"
  by (simp add: parse_hello call_hello call_c_jpg del: py_in.simps)

section \<open>The extraction pipeline\<close>

lemma validate_not_null: "validate_extracted_data x t = Inr v \<Longrightarrow> v \<noteq> JNull"
  by (cases x) (auto simp: case_prod_beta split: if_splits option.splits sum.splits)

lemma validate_gives_dict:
  "validate_extracted_data x t = Inr v \<Longrightarrow> literal_pan_aadhaar t \<Longrightarrow> \<exists>kvs. v = JObj kvs"
  by (cases x)
     (auto simp: case_prod_beta literal_pan_aadhaar_def split: if_splits option.splits sum.splits)

lemma run_extraction_validated:
  assumes "run_extraction w p t = Inr (d, n)" and "VALIDATE_PAN_FORMAT w \<or> VALIDATE_AADHAAR_FORMAT w"
  shows "\<exists>x. validate_extracted_data x t = Inr d"
  using assms
  by (auto simp: run_extraction_def Let_def split: if_splits sum.splits)

lemma extract_filename: "original_filename (metadata (extract_from_image w p t n)) = n"
  by (simp add: extract_from_image_def split: sum.splits prod.splits)

text \<open>
  Claim C2 says that an error result carries the file size whenever the pipeline had
  already read it, and that exactly one of \<open>data\<close> and \<open>error\<close> is populated. In the
  example world the file of \<open>uploads/b.jpg\<close> is found and its size is read, then the
  model's answer cannot be parsed: the error result has no \<open>file_size_bytes\<close>. With format
  validation switched off and a model that answers \<open>null\<close>, the result is a success whose
  \<open>data\<close> is None and which has no \<open>error\<close>.
\<close>

lemma extract_from_run:
  "extract_from_image w p t n =
     (case run_extraction w p t of
        Inl e \<Rightarrow> failure_result w p t n (str_of e)
      | Inr (d, k) \<Rightarrow> success_result w p t n d k)"
  by (simp add: extract_from_image_def failure_result_def success_result_def
        split: sum.splits prod.splits)

text \<open>
  Claim C2 says that an error result carries the file size whenever the pipeline had
  already read it, and that exactly one of \<open>data\<close> and \<open>error\<close> is populated. In the
  example world the file of \<open>uploads/b.jpg\<close> is found and its size is read, then the
  model's answer cannot be parsed: the error result has no \<open>file_size_bytes\<close>. With format
  validation switched off and a model that answers \<open>null\<close>, the result is a success whose
  \<open>data\<close> is None and which has no \<open>error\<close>.
\<close>

theorem error_metadata_without_file_size:
  "stat_size example_world ''uploads/b.jpg'' = Inr 2048
   \<and> status (extract_from_image example_world ''uploads/b.jpg'' ''pan'' (Some ''b.jpg'')) = ''error''
   \<and> file_size_bytes (metadata
        (extract_from_image example_world ''uploads/b.jpg'' ''pan'' (Some ''b.jpg''))) = None
   \<and> status (extract_from_image unvalidated_world ''uploads/b.jpg'' ''pan'' (Some ''b.jpg''))
        = ''success''
   \<and> data (extract_from_image unvalidated_world ''uploads/b.jpg'' ''pan'' (Some ''b.jpg'')) = JNull
   \<and> error (extract_from_image unvalidated_world ''uploads/b.jpg'' ''pan'' (Some ''b.jpg'')) = None"
  by (simp add: extract_hello extract_unvalidated example_world_sel(9))

text \<open>
  Claim C2, amended. For every world and every input, \<open>extract_from_image\<close> returns a
  result and raises nothing. The result is a success with no \<open>error\<close> and with the file
  size in its metadata, its \<open>data\<close> not None whenever format validation is enabled; or
  it is an error with \<open>data\<close> None, an error string, and no file size in its metadata,
  at whichever step the failure happened. In both cases the metadata holds
  \<open>processed_at\<close>, the elapsed time and the original filename as the caller gave it.
\<close>

text \<open>
  Claim C2, amended. For every world and every input, \<open>extract_from_image\<close> returns a
  result and raises nothing. When a step fails, the result is the error result with the
  message of that step: the document type has no prompt, the image file does not exist,
  its size cannot be read, the call to the model fails (a failure of the query or of the
  parser comes out of the call through its except clauses), or the validator raises. The
  error result has status \<open>error\<close>, \<open>data\<close> None, the message as \<open>error\<close>, and
  metadata with \<open>processed_at\<close>, the elapsed time and the original filename as the caller
  gave it, and no file size, also when the size had been read. When every step passes, the
  result is the success result: status \<open>success\<close>, no \<open>error\<close>, the validated data (the
  parsed data when format validation is off), and metadata with the size that was read.
  The data of a success is not None whenever format validation is enabled.
\<close>

theorem extract_from_image_result:
  "(let r = extract_from_image w image_path doc_type name;
        prompt = get_extraction_prompt doc_type;
        validating = (VALIDATE_PAN_FORMAT w \<or> VALIDATE_AADHAAR_FORMAT w)
    in
      (prompt = EMPTY_PROMPT \<longrightarrow>
         r = failure_result w image_path doc_type name (''Unknown document type: '' @ doc_type))
    \<and> (prompt \<noteq> EMPTY_PROMPT \<and> \<not> path_exists w image_path \<longrightarrow>
         r = failure_result w image_path doc_type name (''Image file not found: '' @ image_path))
    \<and> (\<forall>e. prompt \<noteq> EMPTY_PROMPT \<and> path_exists w image_path
             \<and> stat_size w image_path = Inl e \<longrightarrow>
         r = failure_result w image_path doc_type name (str_of e))
    \<and> (\<forall>n e. prompt \<noteq> EMPTY_PROMPT \<and> path_exists w image_path
             \<and> stat_size w image_path = Inr n
             \<and> call_moondream_api w image_path prompt = Inl e \<longrightarrow>
         r = failure_result w image_path doc_type name (str_of e))
    \<and> (\<forall>n x e. prompt \<noteq> EMPTY_PROMPT \<and> path_exists w image_path
             \<and> stat_size w image_path = Inr n
             \<and> call_moondream_api w image_path prompt = Inr x
             \<and> validating \<and> validate_extracted_data x doc_type = Inl e \<longrightarrow>
         r = failure_result w image_path doc_type name (str_of e))
    \<and> (\<forall>n x d. prompt \<noteq> EMPTY_PROMPT \<and> path_exists w image_path
             \<and> stat_size w image_path = Inr n
             \<and> call_moondream_api w image_path prompt = Inr x
             \<and> validating \<and> validate_extracted_data x doc_type = Inr d \<longrightarrow>
         r = success_result w image_path doc_type name d n \<and> d \<noteq> JNull)
    \<and> (\<forall>n x. prompt \<noteq> EMPTY_PROMPT \<and> path_exists w image_path
             \<and> stat_size w image_path = Inr n
             \<and> call_moondream_api w image_path prompt = Inr x
             \<and> \<not> validating \<longrightarrow>
         r = success_result w image_path doc_type name x n)
    \<and> (\<forall>e. MOONDREAM_AVAILABLE w \<and> model_loaded w
             \<and> query_model w image_path prompt = Inl e \<longrightarrow>
         call_moondream_api w image_path prompt = Inl (api_error w image_path None e))
    \<and> (\<forall>text e. MOONDREAM_AVAILABLE w \<and> model_loaded w
             \<and> query_model w image_path prompt = Inr text \<and> text \<noteq> []
             \<and> parse_json_response (json_loads w) text = Inl e \<longrightarrow>
         call_moondream_api w image_path prompt = Inl (api_error w image_path (Some text) e))
    \<and> ((status r = ''success'' \<and> error r = None
          \<and> (validating \<longrightarrow> data r \<noteq> JNull)
          \<and> file_size_bytes (metadata r) \<noteq> None)
        \<or> (status r = ''error'' \<and> data r = JNull \<and> error r \<noteq> None
          \<and> file_size_bytes (metadata r) = None))
    \<and> processed_at (metadata r) = now w
    \<and> processing_time_ms (metadata r) = Some (elapsed_ms w image_path)
    \<and> original_filename (metadata r) = name)"
proof -
  define r where "r = extract_from_image w image_path doc_type name"
  define prompt where "prompt = get_extraction_prompt doc_type"
  define validating where "validating = (VALIDATE_PAN_FORMAT w \<or> VALIDATE_AADHAAR_FORMAT w)"
  note defs = r_def prompt_def validating_def
  have 1: "prompt = EMPTY_PROMPT \<longrightarrow>
         r = failure_result w image_path doc_type name (''Unknown document type: '' @ doc_type)"
    by (simp add: defs extract_from_run run_extraction_def)
  have 2: "prompt \<noteq> EMPTY_PROMPT \<and> \<not> path_exists w image_path \<longrightarrow>
         r = failure_result w image_path doc_type name (''Image file not found: '' @ image_path)"
    by (simp add: defs extract_from_run run_extraction_def)
  have 3: "\<forall>e. prompt \<noteq> EMPTY_PROMPT \<and> path_exists w image_path
             \<and> stat_size w image_path = Inl e \<longrightarrow>
         r = failure_result w image_path doc_type name (str_of e)"
    by (simp add: defs extract_from_run run_extraction_def)
  have 4: "\<forall>n e. prompt \<noteq> EMPTY_PROMPT \<and> path_exists w image_path
             \<and> stat_size w image_path = Inr n
             \<and> call_moondream_api w image_path prompt = Inl e \<longrightarrow>
         r = failure_result w image_path doc_type name (str_of e)"
    by (simp add: defs extract_from_run run_extraction_def)
  have 5: "\<forall>n x e. prompt \<noteq> EMPTY_PROMPT \<and> path_exists w image_path
             \<and> stat_size w image_path = Inr n
             \<and> call_moondream_api w image_path prompt = Inr x
             \<and> validating \<and> validate_extracted_data x doc_type = Inl e \<longrightarrow>
         r = failure_result w image_path doc_type name (str_of e)"
    by (auto simp: defs extract_from_run run_extraction_def)
  have 6: "\<forall>n x d. prompt \<noteq> EMPTY_PROMPT \<and> path_exists w image_path
             \<and> stat_size w image_path = Inr n
             \<and> call_moondream_api w image_path prompt = Inr x
             \<and> validating \<and> validate_extracted_data x doc_type = Inr d \<longrightarrow>
         r = success_result w image_path doc_type name d n \<and> d \<noteq> JNull"
    using validate_not_null by (auto simp: defs extract_from_run run_extraction_def)
  have 7: "\<forall>n x. prompt \<noteq> EMPTY_PROMPT \<and> path_exists w image_path
             \<and> stat_size w image_path = Inr n
             \<and> call_moondream_api w image_path prompt = Inr x
             \<and> \<not> validating \<longrightarrow>
         r = success_result w image_path doc_type name x n"
    by (auto simp: defs extract_from_run run_extraction_def)
  have 8: "\<forall>e. MOONDREAM_AVAILABLE w \<and> model_loaded w
             \<and> query_model w image_path prompt = Inl e \<longrightarrow>
         call_moondream_api w image_path prompt = Inl (api_error w image_path None e)"
    by (simp add: call_moondream_api_def)
  have 9: "\<forall>text e. MOONDREAM_AVAILABLE w \<and> model_loaded w
             \<and> query_model w image_path prompt = Inr text \<and> text \<noteq> []
             \<and> parse_json_response (json_loads w) text = Inl e \<longrightarrow>
         call_moondream_api w image_path prompt = Inl (api_error w image_path (Some text) e)"
    by (simp add: call_moondream_api_def)
  have 10: "(status r = ''success'' \<and> error r = None
          \<and> (validating \<longrightarrow> data r \<noteq> JNull)
          \<and> file_size_bytes (metadata r) \<noteq> None)
        \<or> (status r = ''error'' \<and> data r = JNull \<and> error r \<noteq> None
          \<and> file_size_bytes (metadata r) = None)"
  proof (cases "run_extraction w image_path doc_type")
    case (Inl e)
    then show ?thesis by (simp add: defs extract_from_run failure_result_def)
  next
    case (Inr b)
    obtain d n where b: "b = (d, n)" by (cases b)
    have "validating \<Longrightarrow> d \<noteq> JNull"
      using run_extraction_validated [of w image_path doc_type d n] validate_not_null Inr b
      unfolding validating_def by blast
    then show ?thesis using Inr b by (auto simp: defs extract_from_run success_result_def)
  qed
  have 11: "processed_at (metadata r) = now w
    \<and> processing_time_ms (metadata r) = Some (elapsed_ms w image_path)
    \<and> original_filename (metadata r) = name"
    by (simp add: defs extract_from_run failure_result_def success_result_def
          split: sum.splits prod.splits)
  from 1 2 3 4 5 6 7 8 9 10 11 show ?thesis
    unfolding Let_def defs [symmetric] by blast
qed

theorem extract_from_image_result_witness:
  "get_extraction_prompt ''pan'' \<noteq> EMPTY_PROMPT
   \<and> path_exists example_world ''uploads/a.jpg''
   \<and> stat_size example_world ''uploads/a.jpg'' = Inr 2048
   \<and> call_moondream_api example_world ''uploads/a.jpg'' (get_extraction_prompt ''pan'')
       = Inr (JObj [])
   \<and> (VALIDATE_PAN_FORMAT example_world \<or> VALIDATE_AADHAAR_FORMAT example_world)
   \<and> validate_extracted_data (JObj []) ''pan'' = Inr (JObj [(''pan_valid'', JBool False)])
   \<and> extract_from_image example_world ''uploads/a.jpg'' ''pan'' (Some ''a.jpg'')
       = success_result example_world ''uploads/a.jpg'' ''pan'' (Some ''a.jpg'')
           (JObj [(''pan_valid'', JBool False)]) 2048
   \<and> path_exists example_world ''uploads/b.jpg''
   \<and> stat_size example_world ''uploads/b.jpg'' = Inr 2048
   \<and> call_moondream_api example_world ''uploads/b.jpg'' (get_extraction_prompt ''pan'')
       = Inl (Exception (''Error calling Moondream API: Could not parse JSON from response''
           @ [NL, NL] @ ''Full trace:'' @ [NL] @ ''Traceback (most recent call last): ValueError''))
   \<and> extract_from_image example_world ''uploads/b.jpg'' ''pan'' (Some ''b.jpg'')
       = failure_result example_world ''uploads/b.jpg'' ''pan'' (Some ''b.jpg'')
           (''Error calling Moondream API: Could not parse JSON from response''
             @ [NL, NL] @ ''Full trace:'' @ [NL] @ ''Traceback (most recent call last): ValueError'')"
proof -
  have p: "get_extraction_prompt ''pan'' \<noteq> EMPTY_PROMPT" by (simp add: prompt_pan)
  have a: "path_exists example_world ''uploads/a.jpg''"
    "stat_size example_world ''uploads/a.jpg'' = Inr 2048"
    "call_moondream_api example_world ''uploads/a.jpg'' (get_extraction_prompt ''pan'')
       = Inr (JObj [])"
    "VALIDATE_PAN_FORMAT example_world \<or> VALIDATE_AADHAAR_FORMAT example_world"
    by (simp_all add: example_world_sel call_a_jpg)
  have v: "validate_extracted_data (JObj []) ''pan'' = Inr (JObj [(''pan_valid'', JBool False)])"
    by (rule validate_empty)
  have b: "path_exists example_world ''uploads/b.jpg''"
    "stat_size example_world ''uploads/b.jpg'' = Inr 2048"
    "call_moondream_api example_world ''uploads/b.jpg'' (get_extraction_prompt ''pan'')
       = Inl (Exception (''Error calling Moondream API: Could not parse JSON from response''
           @ [NL, NL] @ ''Full trace:'' @ [NL] @ ''Traceback (most recent call last): ValueError''))"
    by (simp_all add: example_world_sel call_hello)
  have ra: "extract_from_image example_world ''uploads/a.jpg'' ''pan'' (Some ''a.jpg'')
       = success_result example_world ''uploads/a.jpg'' ''pan'' (Some ''a.jpg'')
           (JObj [(''pan_valid'', JBool False)]) 2048"
    using extract_from_image_result
            [of example_world "''uploads/a.jpg''" "''pan''" "Some ''a.jpg''"] p a v
    unfolding Let_def by blast
  have "extract_from_image example_world ''uploads/b.jpg'' ''pan'' (Some ''b.jpg'')
       = failure_result example_world ''uploads/b.jpg'' ''pan'' (Some ''b.jpg'')
           (str_of (Exception (''Error calling Moondream API: Could not parse JSON from response''
             @ [NL, NL] @ ''Full trace:'' @ [NL] @ ''Traceback (most recent call last): ValueError'')))"
    using extract_from_image_result
            [of example_world "''uploads/b.jpg''" "''pan''" "Some ''b.jpg''"] p b
    unfolding Let_def by blast
  then have rb: "extract_from_image example_world ''uploads/b.jpg'' ''pan'' (Some ''b.jpg'')
       = failure_result example_world ''uploads/b.jpg'' ''pan'' (Some ''b.jpg'')
           (''Error calling Moondream API: Could not parse JSON from response''
             @ [NL, NL] @ ''Full trace:'' @ [NL] @ ''Traceback (most recent call last): ValueError'')"
    by simp
  from p a v b ra rb show ?thesis by blast
qed

section \<open>The batch endpoints\<close>

lemma save_loop_eq:
  "save_loop w t fs rs fps = (rs @ save_failures w t fs, fps @ saved_files w fs)"
  by (induction fs arbitrary: rs fps)
     (simp_all add: save_failures_def saved_files_def split: sum.splits)

lemma process_loop_eq:
  "process_loop w t fps rs = rs @ map (\<lambda>(p, n). extract_from_image w p t n) fps"
  by (induction fps arbitrary: rs) auto

lemma length_failures_saved:
  "length (save_failures w t fs) + length (saved_files w fs) = length fs"
  by (induction fs) (simp_all add: save_failures_def saved_files_def split: sum.splits)

lemma error_result_ok: "data_is_dict_or_none (error_result w t n m)"
  by (simp add: error_result_def data_is_dict_or_none_def)

lemma extract_ok:
  assumes "literal_pan_aadhaar t" and "VALIDATE_PAN_FORMAT w \<or> VALIDATE_AADHAAR_FORMAT w"
  shows "data_is_dict_or_none (extract_from_image w p t n)"
proof (cases "run_extraction w p t")
  case (Inl e)
  then show ?thesis by (simp add: extract_from_image_def data_is_dict_or_none_def)
next
  case (Inr b)
  obtain d k where b: "b = (d, k)" by (cases b)
  from run_extraction_validated [of w p t d k] Inr b assms(2)
  obtain x where "validate_extracted_data x t = Inr d" by blast
  with assms(1) obtain kvs where "d = JObj kvs" using validate_gives_dict by blast
  then show ?thesis using Inr b by (simp add: extract_from_image_def data_is_dict_or_none_def)
qed

lemma save_failures_ok: "list_all data_is_dict_or_none (save_failures w t fs)"
  by (induction fs) (simp_all add: save_failures_def error_result_ok split: sum.splits)

lemma extractions_ok:
  assumes "literal_pan_aadhaar t" and "VALIDATE_PAN_FORMAT w \<or> VALIDATE_AADHAAR_FORMAT w"
  shows "list_all data_is_dict_or_none (extractions w t fs)"
  using extract_ok [OF assms]
  by (auto simp: extractions_def list_all_iff)

lemma batch_extract_eq:
  assumes "literal_pan_aadhaar t" and "fs \<noteq> []" and "length fs \<le> 50"
  shows "batch_extract w fs t = build_response w (save_failures w t fs @ extractions w t fs)"
  using assms
  by (simp add: batch_extract_def save_loop_eq process_loop_eq extractions_def)

lemma build_response_results:
  "build_response w rs = Inr resp \<Longrightarrow> results resp = rs \<and> total_documents resp = int (length rs)"
  by (auto simp: build_response_def Let_def split: if_splits)

lemma build_response_invariant:
  assumes "build_response w rs = Inr resp" and "rs \<noteq> []"
  shows "batch_invariant resp"
proof -
  let ?s = "length (filter (\<lambda>r. status r = ''success'') rs)"
  have le: "?s \<le> length rs" by simp
  have pos: "0 < length rs" using assms(2) by simp
  from assms(1) have r: "resp = \<lparr>overall_status =
            (if int ?s = int (length rs) then ''success''
             else if int ?s > 0 then ''partial'' else ''error''),
       total_documents = int (length rs), successful = int ?s,
       failed = int (length rs) - int ?s, results = rs,
       batch_time_ms = Some (batch_elapsed_ms w)\<rparr>"
    by (auto simp: build_response_def Let_def split: if_splits)
  show ?thesis using le pos unfolding batch_invariant_def r by auto
qed

lemma save_failures_names:
  "map (\<lambda>r. original_filename (metadata r)) (save_failures w t fs)
     = map filename (filter (\<lambda>f. isl (save_upload_file w f)) fs)"
  by (induction fs) (simp_all add: save_failures_def error_result_def split: sum.splits)

lemma extractions_names:
  "map (\<lambda>r. original_filename (metadata r)) (extractions w t fs)
     = map filename (filter (\<lambda>f. \<not> isl (save_upload_file w f)) fs)"
  by (induction fs)
     (simp_all add: extractions_def saved_files_def extract_filename split: sum.splits)

lemma save_failures_status: "r \<in> set (save_failures w t fs) \<Longrightarrow> status r = ''error''"
  by (induction fs) (auto simp: save_failures_def error_result_def split: sum.splits)

lemma length_batch_results:
  "length (save_failures w t fs @ extractions w t fs) = length fs"
  using length_failures_saved [of w t fs] by (simp add: extractions_def)

lemma batch_extract_guards:
  assumes "batch_extract w fs t = Inr resp"
  shows "literal_pan_aadhaar t \<and> fs \<noteq> [] \<and> length fs \<le> 50"
  using assms by (auto simp: batch_extract_def split: if_splits)

lemma batch_extract_async_guards:
  assumes "batch_extract_async w so eo fs t = Inr resp"
  shows "literal_pan_aadhaar t \<and> fs \<noteq> [] \<and> length fs \<le> 50"
  using assms by (auto simp: batch_extract_async_def split: if_splits)

lemma completion_order_length: "completion_order order n \<Longrightarrow> length order = n"
proof -
  assume "completion_order order n"
  then have "length (sort order) = length [0..<n]" by (simp add: completion_order_def)
  then show ?thesis by simp
qed

lemma length_saved_paths_async: "length (saved_paths_async w so fs) = length so"
  by (simp add: saved_paths_async_def)

lemma length_paths_errors:
  "length (file_paths_of sp) + length (save_errors_of w t sp) = length sp"
  by (induction sp rule: file_paths_of.induct) simp_all

lemma batch_extract_async_eq:
  assumes "literal_pan_aadhaar t" and "fs \<noteq> []" and "length fs \<le> 50"
  shows "batch_extract_async w so eo fs t =
    build_response w
      (map (\<lambda>j. map (\<lambda>(p, n). extract_from_image w p t n)
                   (file_paths_of (saved_paths_async w so fs)) ! j) eo
       @ save_errors_of w t (saved_paths_async w so fs))"
  using assms by (simp add: batch_extract_async_def Let_def)

lemma uploads_names:
  "filename a_jpg = Some ''a.jpg''" "filename b_jpg = Some ''b.jpg''"
  "filename notes_txt = Some ''notes.txt''"
  by (simp_all add: a_jpg_def b_jpg_def notes_txt_def)

lemma literal_pan: "literal_pan_aadhaar ''pan''"
  by (simp add: literal_pan_aadhaar_def)

lemma seq_results_a_notes:
  "results_of (batch_extract example_world [a_jpg, notes_txt] ''pan'')
     = [error_result example_world ''pan'' (Some ''notes.txt'')
          (''Error saving file: '' @ str_of (projl (save_upload_file example_world notes_txt))),
        extract_from_image example_world ''uploads/a.jpg'' ''pan'' (Some ''a.jpg'')]"
proof -
  have f: "save_failures example_world ''pan'' [a_jpg, notes_txt]
      = [error_result example_world ''pan'' (Some ''notes.txt'')
          (''Error saving file: '' @ str_of (projl (save_upload_file example_world notes_txt)))]"
    by (simp add: save_failures_def save_examples uploads_names)
  have x: "extractions example_world ''pan'' [a_jpg, notes_txt]
      = [extract_from_image example_world ''uploads/a.jpg'' ''pan'' (Some ''a.jpg'')]"
    by (simp add: extractions_def saved_files_def save_examples uploads_names)
  have "batch_extract example_world [a_jpg, notes_txt] ''pan''
      = build_response example_world
          (save_failures example_world ''pan'' [a_jpg, notes_txt]
            @ extractions example_world ''pan'' [a_jpg, notes_txt])"
    by (rule batch_extract_eq) (simp_all add: literal_pan)
  then show ?thesis
    unfolding f x
    by (simp add: results_of_def build_response_def Let_def data_is_dict_or_none_def
          error_result_def extract_a_jpg)
qed

lemma seq_response_a_notes:
  "batch_extract example_world [a_jpg, notes_txt] ''pan''
     = Inr (projr (batch_extract example_world [a_jpg, notes_txt] ''pan''))"
proof -
  have e: "batch_extract example_world [a_jpg, notes_txt] ''pan''
      = build_response example_world
          (save_failures example_world ''pan'' [a_jpg, notes_txt]
            @ extractions example_world ''pan'' [a_jpg, notes_txt])"
    by (rule batch_extract_eq) (simp_all add: literal_pan)
  have "list_all data_is_dict_or_none
          (save_failures example_world ''pan'' [a_jpg, notes_txt]
            @ extractions example_world ''pan'' [a_jpg, notes_txt])"
    using save_failures_ok [of example_world "''pan''" "[a_jpg, notes_txt]"]
      extractions_ok [OF literal_pan, of example_world "[a_jpg, notes_txt]"]
    by (simp add: example_world_sel)
  then have "\<not> isl (batch_extract example_world [a_jpg, notes_txt] ''pan'')"
    unfolding e by (simp add: build_response_def Let_def)
  then show ?thesis by simp
qed

lemma async_eval:
  "saved_paths_async example_world [1, 0] [a_jpg, b_jpg]
     = [NotSaved (Some ''a.jpg'') ''500: Error saving file: read failed'',
        Saved ''uploads/a.jpg'' (Some ''b.jpg'')]"
  "saved_paths_async example_world [0] [b_jpg]
     = [NotSaved (Some ''b.jpg'') ''500: Error saving file: read failed'']"
  by (simp_all add: saved_paths_async_def enumerate_eq_zip save_examples uploads_names upt_rec)

lemma async_results_a_b:
  "results_of (batch_extract_async example_world [1, 0] [0] [a_jpg, b_jpg] ''pan'')
     = [extract_from_image example_world ''uploads/a.jpg'' ''pan'' (Some ''b.jpg''),
        error_result example_world ''pan'' (Some ''a.jpg'') ''500: Error saving file: read failed'']"
proof -
  have "batch_extract_async example_world [1, 0] [0] [a_jpg, b_jpg] ''pan''
      = build_response example_world
          (map (\<lambda>j. map (\<lambda>(p, n). extract_from_image example_world p ''pan'' n)
                   (file_paths_of (saved_paths_async example_world [1, 0] [a_jpg, b_jpg])) ! j) [0]
           @ save_errors_of example_world ''pan''
               (saved_paths_async example_world [1, 0] [a_jpg, b_jpg]))"
    by (rule batch_extract_async_eq) (simp_all add: literal_pan)
  then show ?thesis
    unfolding async_eval
    by (simp add: results_of_def build_response_def Let_def data_is_dict_or_none_def
          error_result_def extract_a_jpg)
qed

lemma async_results_b:
  "results_of (batch_extract_async example_world [0] [] [b_jpg] ''pan'')
     = [error_result example_world ''pan'' (Some ''b.jpg'') ''500: Error saving file: read failed'']"
proof -
  have "batch_extract_async example_world [0] [] [b_jpg] ''pan''
      = build_response example_world
          (map (\<lambda>j. map (\<lambda>(p, n). extract_from_image example_world p ''pan'' n)
                   (file_paths_of (saved_paths_async example_world [0] [b_jpg])) ! j) []
           @ save_errors_of example_world ''pan''
               (saved_paths_async example_world [0] [b_jpg]))"
    by (rule batch_extract_async_eq) (simp_all add: literal_pan)
  then show ?thesis
    unfolding async_eval
    by (simp add: results_of_def build_response_def Let_def data_is_dict_or_none_def
          error_result_def)
qed

lemma seq_results_b:
  "results_of (batch_extract example_world [b_jpg] ''pan'')
     = [error_result example_world ''pan'' (Some ''b.jpg'')
          ''Error saving file: 500: Error saving file: read failed'']"
proof -
  have "batch_extract example_world [b_jpg] ''pan''
      = build_response example_world
          (save_failures example_world ''pan'' [b_jpg] @ extractions example_world ''pan'' [b_jpg])"
    by (rule batch_extract_eq) (simp_all add: literal_pan)
  then show ?thesis
    by (simp add: results_of_def build_response_def Let_def data_is_dict_or_none_def
          error_result_def save_failures_def extractions_def saved_files_def save_examples
          uploads_names)
qed

lemma seq_results_a_b:
  "results_of (batch_extract example_world [a_jpg, b_jpg] ''pan'')
     = [error_result example_world ''pan'' (Some ''b.jpg'')
          ''Error saving file: 500: Error saving file: read failed'',
        extract_from_image example_world ''uploads/a.jpg'' ''pan'' (Some ''a.jpg'')]"
proof -
  have "batch_extract example_world [a_jpg, b_jpg] ''pan''
      = build_response example_world
          (save_failures example_world ''pan'' [a_jpg, b_jpg]
             @ extractions example_world ''pan'' [a_jpg, b_jpg])"
    by (rule batch_extract_eq) (simp_all add: literal_pan)
  then show ?thesis
    by (simp add: results_of_def build_response_def Let_def data_is_dict_or_none_def
          error_result_def save_failures_def extractions_def saved_files_def save_examples
          uploads_names extract_a_jpg)
qed

lemma async_response_a_b:
  "batch_extract_async example_world [1, 0] [0] [a_jpg, b_jpg] ''pan''
     = Inr (projr (batch_extract_async example_world [1, 0] [0] [a_jpg, b_jpg] ''pan''))"
proof -
  have "batch_extract_async example_world [1, 0] [0] [a_jpg, b_jpg] ''pan''
      = build_response example_world
          (map (\<lambda>j. map (\<lambda>(p, n). extract_from_image example_world p ''pan'' n)
                   (file_paths_of (saved_paths_async example_world [1, 0] [a_jpg, b_jpg])) ! j) [0]
           @ save_errors_of example_world ''pan''
               (saved_paths_async example_world [1, 0] [a_jpg, b_jpg]))"
    by (rule batch_extract_async_eq) (simp_all add: literal_pan)
  then have "\<not> isl (batch_extract_async example_world [1, 0] [0] [a_jpg, b_jpg] ''pan'')"
    unfolding async_eval
    by (simp add: build_response_def Let_def data_is_dict_or_none_def error_result_def
          extract_a_jpg)
  then show ?thesis by simp
qed

lemma async_orders_a_b:
  "completion_order [1, 0] (length [a_jpg, b_jpg])"
  "completion_order [0]
     (length (file_paths_of (saved_paths_async example_world [1, 0] [a_jpg, b_jpg])))"
  unfolding async_eval by (simp_all add: completion_order_def upt_rec)

text \<open>
  Claim C3. Whenever either batch endpoint returns a response, \<open>total_documents\<close> is the
  number of results, \<open>successful\<close> the number of results with status \<open>success\<close>,
  \<open>failed\<close> their difference, and the overall status is \<open>success\<close> exactly when nothing
  failed and there is at least one document, \<open>error\<close> exactly when nothing succeeded, and
  \<open>partial\<close> otherwise. For the concurrent endpoint the two completion orders are
  orderings of the save tasks and of the extraction tasks. Both endpoints reject an empty
  list of uploads before this point, so the results are never empty.
\<close>

lemma mset_map_nth_order:
  assumes "completion_order order (length xs)"
  shows "mset (map (\<lambda>j. xs ! j) order) = mset xs"
proof -
  from assms have "mset (sort order) = mset [0..<length xs]"
    by (simp add: completion_order_def)
  then have "mset order = mset [0..<length xs]" by simp
  then have "image_mset (\<lambda>j. xs ! j) (mset order) = image_mset (\<lambda>j. xs ! j) (mset [0..<length xs])"
    by simp
  then have "mset (map (\<lambda>j. xs ! j) order) = mset (map (\<lambda>j. xs ! j) [0..<length xs])"
    by simp
  then show ?thesis by (simp add: map_nth)
qed

lemma save_failures_no_success:
  "filter (\<lambda>r. status r = ''success'') (save_failures w t fs) = []"
  by (induction fs) (simp_all add: save_failures_def error_result_def split: sum.splits)

lemma save_errors_no_success:
  "filter (\<lambda>r. status r = ''success'') (save_errors_of w t sp) = []"
  by (induction sp rule: file_paths_of.induct) (simp_all add: error_result_def)

lemma length_extractions:
  "length (extractions w t fs) = length (filter (\<lambda>f. \<not> isl (save_upload_file w f)) fs)"
  using extractions_names [of w t fs] by (metis length_map)

lemma length_filter_mset_eq:
  "mset xs = mset ys \<Longrightarrow> length (filter P xs) = length (filter P ys)"
  by (metis mset_filter size_mset)

lemma build_response_total:
  "list_all data_is_dict_or_none rs \<Longrightarrow> \<exists>resp. build_response w rs = Inr resp"
  by (simp add: build_response_def Let_def)

lemma build_response_facts:
  assumes "build_response w rs = Inr resp" and "rs \<noteq> []"
  shows "results resp = rs"
    and "total_documents resp = int (length rs)"
    and "successful resp = int (length (filter (\<lambda>r. status r = ''success'') rs))"
    and "failed resp = total_documents resp - successful resp"
    and "overall_status resp = ''success'' \<longleftrightarrow> failed resp = 0 \<and> total_documents resp > 0"
    and "overall_status resp = ''error'' \<longleftrightarrow> successful resp = 0"
    and "overall_status resp = ''partial'' \<longleftrightarrow>
           \<not> (failed resp = 0 \<and> total_documents resp > 0) \<and> successful resp \<noteq> 0"
proof -
  from build_response_results [OF assms(1)] show r: "results resp = rs"
    and "total_documents resp = int (length rs)" by simp_all
  from build_response_invariant [OF assms] have i: "batch_invariant resp" .
  from i r show "successful resp = int (length (filter (\<lambda>r. status r = ''success'') rs))"
    by (simp add: batch_invariant_def)
  from i show "failed resp = total_documents resp - successful resp"
    unfolding batch_invariant_def by blast
  from i show "overall_status resp = ''success'' \<longleftrightarrow> failed resp = 0 \<and> total_documents resp > 0"
    unfolding batch_invariant_def by blast
  from i show "overall_status resp = ''error'' \<longleftrightarrow> successful resp = 0"
    unfolding batch_invariant_def by blast
  from i show "overall_status resp = ''partial'' \<longleftrightarrow>
           \<not> (failed resp = 0 \<and> total_documents resp > 0) \<and> successful resp \<noteq> 0"
    unfolding batch_invariant_def by blast
qed

lemma async_results_facts:
  assumes a: "batch_extract_async w so eo fs t = Inr resp"
    and so: "completion_order so (length fs)"
    and eo: "completion_order eo (length (file_paths_of (saved_paths_async w so fs)))"
  shows "\<exists>rs. build_response w rs = Inr resp \<and> rs \<noteq> [] \<and> length rs = length fs
     \<and> mset rs = mset (async_extractions w t so fs)
                 + mset (save_errors_of w t (saved_paths_async w so fs))
     \<and> length (filter (\<lambda>r. status r = ''success'') rs)
         = length (filter (\<lambda>r. status r = ''success'') (async_extractions w t so fs))"
proof -
  let ?sp = "saved_paths_async w so fs"
  let ?xs = "async_extractions w t so fs"
  let ?rs = "map (\<lambda>j. ?xs ! j) eo @ save_errors_of w t ?sp"
  note g = batch_extract_async_guards [OF a]
  from g have e: "batch_extract_async w so eo fs t = build_response w ?rs"
    by (simp add: batch_extract_async_eq async_extractions_def)
  have lx: "length ?xs = length (file_paths_of ?sp)" by (simp add: async_extractions_def)
  from eo lx have eo': "completion_order eo (length ?xs)" by simp
  have m: "mset (map (\<lambda>j. ?xs ! j) eo) = mset ?xs" using eo' by (rule mset_map_nth_order)
  then have m2: "mset ?rs = mset ?xs + mset (save_errors_of w t ?sp)" by simp
  have "length (map (\<lambda>j. ?xs ! j) eo) = length ?xs" using m by (metis size_mset)
  then have "length ?rs = length (file_paths_of ?sp) + length (save_errors_of w t ?sp)"
    using lx by simp
  also have "\<dots> = length ?sp" by (rule length_paths_errors)
  also have "\<dots> = length fs"
    using so completion_order_length length_saved_paths_async by metis
  finally have l: "length ?rs = length fs" .
  then have ne: "?rs \<noteq> []" using g by auto
  have "filter (\<lambda>r. status r = ''success'') ?rs
      = filter (\<lambda>r. status r = ''success'') (map (\<lambda>j. ?xs ! j) eo)"
    by (simp add: save_errors_no_success)
  then have c: "length (filter (\<lambda>r. status r = ''success'') ?rs)
      = length (filter (\<lambda>r. status r = ''success'') ?xs)"
    using length_filter_mset_eq [OF m] by simp
  from a e have "build_response w ?rs = Inr resp" by simp
  with ne l m2 c show ?thesis by blast
qed

lemma extractions_a_notes:
  "extractions example_world ''pan'' [a_jpg, notes_txt]
     = [extract_from_image example_world ''uploads/a.jpg'' ''pan'' (Some ''a.jpg'')]"
  by (simp add: extractions_def saved_files_def save_examples uploads_names)

lemma async_extractions_a_b:
  "async_extractions example_world ''pan'' [1, 0] [a_jpg, b_jpg]
     = [extract_from_image example_world ''uploads/a.jpg'' ''pan'' (Some ''b.jpg'')]"
  unfolding async_extractions_def async_eval by simp

lemma list_answer_world_sel:
  "MOONDREAM_AVAILABLE list_answer_world" "model_loaded list_answer_world"
  "model_name list_answer_world = ''moondream2''"
  "query_model list_answer_world image_path prompt = Inr ''[]''"
  "json_loads list_answer_world ''[]'' = Inr (JArr [])"
  "path_exists list_answer_world image_path" "stat_size list_answer_world image_path = Inr 2048"
  "\<not> VALIDATE_PAN_FORMAT list_answer_world" "\<not> VALIDATE_AADHAAR_FORMAT list_answer_world"
  "now list_answer_world = ''2025-01-01T00:00:00''" "elapsed_ms list_answer_world image_path = 120"
  "ALLOWED_EXTENSIONS list_answer_world = [''jpg'', ''jpeg'', ''png'', ''pdf'']"
  "MAX_FILE_SIZE list_answer_world = 10485760"
  "write_file list_answer_world upload
     = Inr (''uploads/'' @ (case filename upload of None \<Rightarrow> [] | Some n \<Rightarrow> n))"
  by (simp_all add: list_answer_world_def example_world_def)

lemma extract_list_answer:
  "extract_from_image list_answer_world image_path ''pan'' name
     = success_result list_answer_world image_path ''pan'' name (JArr []) 2048"
proof -
  have c: "call_moondream_api list_answer_world image_path PAN_EXTRACTION_PROMPT = Inr (JArr [])"
    unfolding call_moondream_api_def parse_json_response_def
    by (simp add: list_answer_world_sel del: py_in.simps)
  have r: "run_extraction list_answer_world image_path ''pan'' = Inr (JArr [], 2048)"
    unfolding run_extraction_def
    by (simp add: prompt_pan c list_answer_world_sel)
  show ?thesis by (simp add: extract_from_run r)
qed

lemma save_a_jpg_list_answer:
  "save_upload_file list_answer_world a_jpg = Inr ''uploads/a.jpg''"
proof -
  have "allowed_file list_answer_world ''a.jpg''"
    unfolding allowed_file_def list_answer_world_sel by code_simp
  then show ?thesis
    unfolding save_upload_file_def a_jpg_def
    by (simp add: list_answer_world_sel)
qed

lemma batch_list_answer:
  "batch_extract list_answer_world [a_jpg] ''pan''
     = Inl (ValidationError ''results.data: Input should be a valid dictionary'')"
proof -
  have "batch_extract list_answer_world [a_jpg] ''pan''
      = build_response list_answer_world
          (save_failures list_answer_world ''pan'' [a_jpg]
             @ extractions list_answer_world ''pan'' [a_jpg])"
    by (rule batch_extract_eq) (simp_all add: literal_pan)
  then show ?thesis
    by (simp add: build_response_def Let_def data_is_dict_or_none_def
          save_failures_def extractions_def saved_files_def save_a_jpg_list_answer
          uploads_names extract_list_answer success_result_def)
qed

text \<open>
  Claim C3. \<open>build_response\<close> is the aggregation of both endpoints. For every non-empty
  list of per-item outcomes, the response it builds holds these outcomes as its results;
  \<open>total_documents\<close> is their number, \<open>successful\<close> the number of them with status
  \<open>success\<close>, \<open>failed\<close> the difference, and the overall status is \<open>success\<close> exactly
  when nothing failed and there is at least one document, \<open>error\<close> exactly when nothing
  succeeded, and \<open>partial\<close> otherwise. It builds a response whenever the data of every
  outcome is a dict or None. The sequential endpoint aggregates the save failures and the
  extraction results of its uploads, the concurrent endpoint the same outcomes of its own
  in some order (the completion orders being orderings of the save tasks and of the
  extraction tasks): in both, \<open>total_documents\<close> is the number of uploads and
  \<open>successful\<close> the number of successful extractions, and the same relations hold. Both
  endpoints reject an empty list of uploads, so the outcomes are never empty.
\<close>

theorem batch_counts_and_status:
  "(rs \<noteq> [] \<and> build_response w rs = Inr resp \<longrightarrow>
       results resp = rs
     \<and> total_documents resp = int (length rs)
     \<and> successful resp = int (length (filter (\<lambda>r. status r = ''success'') rs))
     \<and> failed resp = total_documents resp - successful resp
     \<and> (overall_status resp = ''success'' \<longleftrightarrow> failed resp = 0 \<and> total_documents resp > 0)
     \<and> (overall_status resp = ''error'' \<longleftrightarrow> successful resp = 0)
     \<and> (overall_status resp = ''partial'' \<longleftrightarrow>
          \<not> (failed resp = 0 \<and> total_documents resp > 0) \<and> successful resp \<noteq> 0))
   \<and> (list_all data_is_dict_or_none rs \<longrightarrow> (\<exists>response. build_response w rs = Inr response))
   \<and> (batch_extract w files t = Inr resp \<longrightarrow>
       results resp = save_failures w t files @ extractions w t files
     \<and> total_documents resp = int (length (results resp))
     \<and> total_documents resp = int (length files)
     \<and> successful resp = int (length (filter (\<lambda>r. status r = ''success'') (results resp)))
     \<and> successful resp
         = int (length (filter (\<lambda>r. status r = ''success'') (extractions w t files)))
     \<and> failed resp = total_documents resp - successful resp
     \<and> (overall_status resp = ''success'' \<longleftrightarrow> failed resp = 0 \<and> total_documents resp > 0)
     \<and> (overall_status resp = ''error'' \<longleftrightarrow> successful resp = 0)
     \<and> (overall_status resp = ''partial'' \<longleftrightarrow>
          \<not> (failed resp = 0 \<and> total_documents resp > 0) \<and> successful resp \<noteq> 0))
   \<and> (batch_extract_async w save_order extract_order files t = Inr resp
        \<and> completion_order save_order (length files)
        \<and> completion_order extract_order
             (length (file_paths_of (saved_paths_async w save_order files))) \<longrightarrow>
       mset (results resp)
         = mset (async_extractions w t save_order files)
           + mset (save_errors_of w t (saved_paths_async w save_order files))
     \<and> total_documents resp = int (length (results resp))
     \<and> total_documents resp = int (length files)
     \<and> successful resp = int (length (filter (\<lambda>r. status r = ''success'') (results resp)))
     \<and> successful resp
         = int (length (filter (\<lambda>r. status r = ''success'')
                          (async_extractions w t save_order files)))
     \<and> failed resp = total_documents resp - successful resp
     \<and> (overall_status resp = ''success'' \<longleftrightarrow> failed resp = 0 \<and> total_documents resp > 0)
     \<and> (overall_status resp = ''error'' \<longleftrightarrow> successful resp = 0)
     \<and> (overall_status resp = ''partial'' \<longleftrightarrow>
          \<not> (failed resp = 0 \<and> total_documents resp > 0) \<and> successful resp \<noteq> 0))"
proof (intro conjI impI)
  assume "rs \<noteq> [] \<and> build_response w rs = Inr resp"
  then have b: "build_response w rs = Inr resp" and ne: "rs \<noteq> []" by simp_all
  note f = build_response_facts [OF b ne]
  show "results resp = rs" by (rule f)
  show "total_documents resp = int (length rs)" by (rule f)
  show "successful resp = int (length (filter (\<lambda>r. status r = ''success'') rs))" by (rule f)
  show "failed resp = total_documents resp - successful resp" by (rule f)
  show "overall_status resp = ''success'' \<longleftrightarrow> failed resp = 0 \<and> total_documents resp > 0"
    by (rule f)
  show "overall_status resp = ''error'' \<longleftrightarrow> successful resp = 0" by (rule f)
  show "overall_status resp = ''partial'' \<longleftrightarrow>
          \<not> (failed resp = 0 \<and> total_documents resp > 0) \<and> successful resp \<noteq> 0" by (rule f)
next
  assume "list_all data_is_dict_or_none rs"
  then show "\<exists>response. build_response w rs = Inr response" by (rule build_response_total)
next
  assume a: "batch_extract w files t = Inr resp"
  let ?rs = "save_failures w t files @ extractions w t files"
  note g = batch_extract_guards [OF a]
  from g a have b: "build_response w ?rs = Inr resp" by (simp add: batch_extract_eq)
  have l: "length ?rs = length files" by (rule length_batch_results)
  then have ne: "?rs \<noteq> []" using g by auto
  note f = build_response_facts [OF b ne]
  show "results resp = ?rs" by (rule f)
  show "total_documents resp = int (length (results resp))" using f(1,2) by simp
  show "total_documents resp = int (length files)" using f(2) l by simp
  show "successful resp = int (length (filter (\<lambda>r. status r = ''success'') (results resp)))"
    using f(1,3) by simp
  show "successful resp
         = int (length (filter (\<lambda>r. status r = ''success'') (extractions w t files)))"
    using f(3) by (simp add: save_failures_no_success)
  show "failed resp = total_documents resp - successful resp" by (rule f)
  show "overall_status resp = ''success'' \<longleftrightarrow> failed resp = 0 \<and> total_documents resp > 0"
    by (rule f)
  show "overall_status resp = ''error'' \<longleftrightarrow> successful resp = 0" by (rule f)
  show "overall_status resp = ''partial'' \<longleftrightarrow>
          \<not> (failed resp = 0 \<and> total_documents resp > 0) \<and> successful resp \<noteq> 0" by (rule f)
next
  assume h: "batch_extract_async w save_order extract_order files t = Inr resp
        \<and> completion_order save_order (length files)
        \<and> completion_order extract_order
             (length (file_paths_of (saved_paths_async w save_order files)))"
  from h async_results_facts [of w save_order extract_order files t resp]
  obtain rs' where b: "build_response w rs' = Inr resp" and ne: "rs' \<noteq> []"
    and l: "length rs' = length files"
    and m: "mset rs' = mset (async_extractions w t save_order files)
                 + mset (save_errors_of w t (saved_paths_async w save_order files))"
    and c: "length (filter (\<lambda>r. status r = ''success'') rs')
         = length (filter (\<lambda>r. status r = ''success'') (async_extractions w t save_order files))"
    by blast
  note f = build_response_facts [OF b ne]
  show "mset (results resp)
         = mset (async_extractions w t save_order files)
           + mset (save_errors_of w t (saved_paths_async w save_order files))"
    using f(1) m by simp
  show "total_documents resp = int (length (results resp))" using f(1,2) by simp
  show "total_documents resp = int (length files)" using f(2) l by simp
  show "successful resp = int (length (filter (\<lambda>r. status r = ''success'') (results resp)))"
    using f(1,3) by simp
  show "successful resp
         = int (length (filter (\<lambda>r. status r = ''success'')
                          (async_extractions w t save_order files)))"
    using f(3) c by simp
  show "failed resp = total_documents resp - successful resp" by (rule f)
  show "overall_status resp = ''success'' \<longleftrightarrow> failed resp = 0 \<and> total_documents resp > 0"
    by (rule f)
  show "overall_status resp = ''error'' \<longleftrightarrow> successful resp = 0" by (rule f)
  show "overall_status resp = ''partial'' \<longleftrightarrow>
          \<not> (failed resp = 0 \<and> total_documents resp > 0) \<and> successful resp \<noteq> 0" by (rule f)
qed

theorem batch_counts_and_status_witness:
  "batch_extract example_world [a_jpg, notes_txt] ''pan''
     = Inr (projr (batch_extract example_world [a_jpg, notes_txt] ''pan''))
   \<and> total_documents (projr (batch_extract example_world [a_jpg, notes_txt] ''pan'')) = 2
   \<and> successful (projr (batch_extract example_world [a_jpg, notes_txt] ''pan'')) = 1
   \<and> failed (projr (batch_extract example_world [a_jpg, notes_txt] ''pan'')) = 1
   \<and> overall_status (projr (batch_extract example_world [a_jpg, notes_txt] ''pan'')) = ''partial''
   \<and> length (results (projr (batch_extract example_world [a_jpg, notes_txt] ''pan''))) = 2
   \<and> batch_extract_async example_world [1, 0] [0] [a_jpg, b_jpg] ''pan''
     = Inr (projr (batch_extract_async example_world [1, 0] [0] [a_jpg, b_jpg] ''pan''))
   \<and> completion_order [1, 0] (length [a_jpg, b_jpg])
   \<and> completion_order [0]
        (length (file_paths_of (saved_paths_async example_world [1, 0] [a_jpg, b_jpg])))
   \<and> total_documents (projr (batch_extract_async example_world [1, 0] [0] [a_jpg, b_jpg] ''pan'')) = 2
   \<and> successful (projr (batch_extract_async example_world [1, 0] [0] [a_jpg, b_jpg] ''pan'')) = 1
   \<and> failed (projr (batch_extract_async example_world [1, 0] [0] [a_jpg, b_jpg] ''pan'')) = 1
   \<and> overall_status (projr (batch_extract_async example_world [1, 0] [0] [a_jpg, b_jpg] ''pan''))
       = ''partial''"
proof -
  let ?s = "projr (batch_extract example_world [a_jpg, notes_txt] ''pan'')"
  let ?a = "projr (batch_extract_async example_world [1, 0] [0] [a_jpg, b_jpg] ''pan'')"
  note hs = seq_response_a_notes
  note ha = async_response_a_b async_orders_a_b
  have cs: "length (filter (\<lambda>r. status r = ''success'')
              (extractions example_world ''pan'' [a_jpg, notes_txt])) = 1"
    unfolding extractions_a_notes by (simp add: extract_a_jpg)
  have ca: "length (filter (\<lambda>r. status r = ''success'')
              (async_extractions example_world ''pan'' [1, 0] [a_jpg, b_jpg])) = 1"
    unfolding async_extractions_a_b by (simp add: extract_a_jpg)
  note T = batch_counts_and_status
      [where w = example_world and files = "[a_jpg, notes_txt]" and t = "''pan''" and resp = ?s]
  from T hs have s1: "total_documents ?s = int (length [a_jpg, notes_txt])"
    and s2: "successful ?s = int (length (filter (\<lambda>r. status r = ''success'')
                (extractions example_world ''pan'' [a_jpg, notes_txt])))"
    and s3: "failed ?s = total_documents ?s - successful ?s"
    and s4: "overall_status ?s = ''partial'' \<longleftrightarrow>
          \<not> (failed ?s = 0 \<and> total_documents ?s > 0) \<and> successful ?s \<noteq> 0"
    and s5: "total_documents ?s = int (length (results ?s))"
    by blast+
  note U = batch_counts_and_status
      [where w = example_world and files = "[a_jpg, b_jpg]" and t = "''pan''" and resp = ?a
         and save_order = "[1, 0]" and extract_order = "[0]"]
  from U ha have a1: "total_documents ?a = int (length [a_jpg, b_jpg])"
    and a2: "successful ?a = int (length (filter (\<lambda>r. status r = ''success'')
                (async_extractions example_world ''pan'' [1, 0] [a_jpg, b_jpg])))"
    and a3: "failed ?a = total_documents ?a - successful ?a"
    and a4: "overall_status ?a = ''partial'' \<longleftrightarrow>
          \<not> (failed ?a = 0 \<and> total_documents ?a > 0) \<and> successful ?a \<noteq> 0"
    by blast+
  have S: "total_documents ?s = 2" "successful ?s = 1" "failed ?s = 1"
    using s1 s2 s3 cs by simp_all
  have S4: "overall_status ?s = ''partial''" using s4 S by simp
  have S5: "length (results ?s) = 2" using s5 S by simp
  have A: "total_documents ?a = 2" "successful ?a = 1" "failed ?a = 1"
    using a1 a2 a3 ca by simp_all
  have A4: "overall_status ?a = ''partial''" using a4 A by simp
  from hs ha S S4 S5 A A4 show ?thesis by blast
qed

text \<open>
  Claim C8 says that for every list of 1 to 50 uploads the results of the sequential
  endpoint hold one result for each upload, in the order of the uploads. The endpoint
  first saves every upload, appending an error result for each one that cannot be saved,
  and only then extracts from the saved ones: for the uploads \<open>a.jpg\<close> and
  \<open>notes.txt\<close>, the second of a type that is not allowed, the result for \<open>notes.txt\<close>
  comes first. And with format validation switched off, a model answer that is a JSON list
  becomes the data of a success result; the response model takes a dict or None only, so
  building the response raises and the one upload of the batch gets no result at all.
\<close>

theorem sequential_order_and_unvalidated_batch:
  "map filename [a_jpg, notes_txt] = [Some ''a.jpg'', Some ''notes.txt'']
   \<and> map (\<lambda>r. original_filename (metadata r))
        (results_of (batch_extract example_world [a_jpg, notes_txt] ''pan''))
      = [Some ''notes.txt'', Some ''a.jpg'']
   \<and> length [a_jpg] = 1
   \<and> batch_extract list_answer_world [a_jpg] ''pan''
      = Inl (ValidationError ''results.data: Input should be a valid dictionary'')
   \<and> results_of (batch_extract list_answer_world [a_jpg] ''pan'') = []"
  unfolding seq_results_a_notes batch_list_answer
  by (simp add: uploads_names error_result_def extract_a_jpg results_of_def)

text \<open>
  Claim C8, amended. For every list of 1 to 50 uploads and document type \<open>pan\<close> or
  \<open>aadhaar\<close>, with format validation enabled, the sequential endpoint returns a response
  that holds exactly one result for each upload, and \<open>total_documents\<close> is their number:
  first, in the order of the uploads, an error result for each upload that could not be
  saved, then, in the order of the uploads, the extraction result of each upload that was
  saved. Each result carries the filename of its upload. Whatever the settings, every
  response that the endpoint returns is of this form.
\<close>

theorem batch_extract_results:
  assumes "literal_pan_aadhaar t" and "1 \<le> length files" and "length files \<le> 50"
  shows "(\<forall>resp. batch_extract w files t = Inr resp \<longrightarrow>
            results resp = save_failures w t files @ extractions w t files
          \<and> length (results resp) = length files
          \<and> total_documents resp = int (length files)
          \<and> map (\<lambda>r. original_filename (metadata r)) (results resp)
              = map filename (filter (\<lambda>f. isl (save_upload_file w f)) files)
                @ map filename (filter (\<lambda>f. \<not> isl (save_upload_file w f)) files))
     \<and> (\<forall>r \<in> set (save_failures w t files). status r = ''error'')
     \<and> length (save_failures w t files)
         = length (filter (\<lambda>f. isl (save_upload_file w f)) files)
     \<and> length (extractions w t files)
         = length (filter (\<lambda>f. \<not> isl (save_upload_file w f)) files)
     \<and> (VALIDATE_PAN_FORMAT w \<or> VALIDATE_AADHAAR_FORMAT w \<longrightarrow>
          (\<exists>resp. batch_extract w files t = Inr resp
            \<and> results resp = save_failures w t files @ extractions w t files
            \<and> length (results resp) = length files
            \<and> total_documents resp = int (length files)
            \<and> map (\<lambda>r. original_filename (metadata r)) (results resp)
                = map filename (filter (\<lambda>f. isl (save_upload_file w f)) files)
                  @ map filename (filter (\<lambda>f. \<not> isl (save_upload_file w f)) files)))"
proof -
  from assms have ne: "files \<noteq> []" by auto
  have e: "batch_extract w files t
      = build_response w (save_failures w t files @ extractions w t files)"
    using assms(1) ne assms(3) by (rule batch_extract_eq)
  have 1: "\<forall>resp. batch_extract w files t = Inr resp \<longrightarrow>
            results resp = save_failures w t files @ extractions w t files
          \<and> length (results resp) = length files
          \<and> total_documents resp = int (length files)
          \<and> map (\<lambda>r. original_filename (metadata r)) (results resp)
              = map filename (filter (\<lambda>f. isl (save_upload_file w f)) files)
                @ map filename (filter (\<lambda>f. \<not> isl (save_upload_file w f)) files)"
  proof (intro allI impI)
    fix resp assume "batch_extract w files t = Inr resp"
    with e have "build_response w (save_failures w t files @ extractions w t files) = Inr resp"
      by simp
    from build_response_results [OF this]
    have r: "results resp = save_failures w t files @ extractions w t files"
      and n: "total_documents resp = int (length (save_failures w t files @ extractions w t files))"
      by simp_all
    show "results resp = save_failures w t files @ extractions w t files
          \<and> length (results resp) = length files
          \<and> total_documents resp = int (length files)
          \<and> map (\<lambda>r. original_filename (metadata r)) (results resp)
              = map filename (filter (\<lambda>f. isl (save_upload_file w f)) files)
                @ map filename (filter (\<lambda>f. \<not> isl (save_upload_file w f)) files)"
      using r n length_batch_results [of w t files]
      by (simp add: save_failures_names extractions_names)
  qed
  have 2: "\<forall>r \<in> set (save_failures w t files). status r = ''error''"
    using save_failures_status by blast
  have 3: "length (save_failures w t files)
         = length (filter (\<lambda>f. isl (save_upload_file w f)) files)"
    using save_failures_names [of w t files] by (metis length_map)
  have 4: "length (extractions w t files)
         = length (filter (\<lambda>f. \<not> isl (save_upload_file w f)) files)"
    by (rule length_extractions)
  have 5: "VALIDATE_PAN_FORMAT w \<or> VALIDATE_AADHAAR_FORMAT w \<longrightarrow>
          (\<exists>resp. batch_extract w files t = Inr resp)"
  proof
    assume v: "VALIDATE_PAN_FORMAT w \<or> VALIDATE_AADHAAR_FORMAT w"
    have "list_all data_is_dict_or_none (save_failures w t files @ extractions w t files)"
      using save_failures_ok [of w t files] extractions_ok [OF assms(1) v, of files] by simp
    then show "\<exists>resp. batch_extract w files t = Inr resp"
      unfolding e by (rule build_response_total)
  qed
  from 1 2 3 4 5 show ?thesis by blast
qed

theorem batch_extract_results_witness:
  "literal_pan_aadhaar ''pan'' \<and> 1 \<le> length [a_jpg, notes_txt] \<and> length [a_jpg, notes_txt] \<le> 50
   \<and> (VALIDATE_PAN_FORMAT example_world \<or> VALIDATE_AADHAAR_FORMAT example_world)
   \<and> (\<exists>resp. batch_extract example_world [a_jpg, notes_txt] ''pan'' = Inr resp
         \<and> length (results resp) = 2 \<and> total_documents resp = 2
         \<and> map (\<lambda>r. original_filename (metadata r)) (results resp)
             = [Some ''notes.txt'', Some ''a.jpg''])"
proof -
  have h: "literal_pan_aadhaar ''pan''" "1 \<le> length [a_jpg, notes_txt]"
    "length [a_jpg, notes_txt] \<le> 50" by (simp_all add: literal_pan)
  have v: "VALIDATE_PAN_FORMAT example_world \<or> VALIDATE_AADHAAR_FORMAT example_world"
    by (simp add: example_world_sel)
  have i: "filter (\<lambda>f. isl (save_upload_file example_world f)) [a_jpg, notes_txt] = [notes_txt]"
    "filter (\<lambda>f. \<not> isl (save_upload_file example_world f)) [a_jpg, notes_txt] = [a_jpg]"
    by (simp_all add: save_examples)
  from batch_extract_results [OF h, of example_world] v
  obtain resp where r: "batch_extract example_world [a_jpg, notes_txt] ''pan'' = Inr resp"
    and l: "length (results resp) = length [a_jpg, notes_txt]"
    and n: "total_documents resp = int (length [a_jpg, notes_txt])"
    and m: "map (\<lambda>r. original_filename (metadata r)) (results resp)
                = map filename (filter (\<lambda>f. isl (save_upload_file example_world f)) [a_jpg, notes_txt])
                  @ map filename (filter (\<lambda>f. \<not> isl (save_upload_file example_world f)) [a_jpg, notes_txt])"
    by blast
  from m have "map (\<lambda>r. original_filename (metadata r)) (results resp)
             = [Some ''notes.txt'', Some ''a.jpg'']"
    unfolding i by (simp add: uploads_names)
  with r l n h v show ?thesis by auto
qed

text \<open>
  Claim C9 says that the concurrent endpoint returns the same results as the sequential
  one, as a multiset, each with the filename of its own upload. For an upload that cannot
  be saved, the sequential endpoint reports \<open>Error saving file:\<close> followed by the
  exception, the concurrent one the exception alone. And the concurrent endpoint reads
  the filename at the position at which a save finished, not at the position of the
  upload: when the save of \<open>b.jpg\<close> fails before the save of \<open>a.jpg\<close> ends, the failure
  is reported under the name \<open>a.jpg\<close> and the extraction of \<open>a.jpg\<close> under the name
  \<open>b.jpg\<close>.
\<close>

theorem concurrent_results_differ:
  "map error (results_of (batch_extract example_world [b_jpg] ''pan''))
     = [Some ''Error saving file: 500: Error saving file: read failed'']
   \<and> map error (results_of (batch_extract_async example_world [0] [] [b_jpg] ''pan''))
     = [Some ''500: Error saving file: read failed'']
   \<and> mset (results_of (batch_extract_async example_world [0] [] [b_jpg] ''pan''))
     \<noteq> mset (results_of (batch_extract example_world [b_jpg] ''pan''))
   \<and> map (\<lambda>r. (status r, original_filename (metadata r)))
        (results_of (batch_extract example_world [a_jpg, b_jpg] ''pan''))
     = [(''error'', Some ''b.jpg''), (''success'', Some ''a.jpg'')]
   \<and> map (\<lambda>r. (status r, original_filename (metadata r)))
        (results_of (batch_extract_async example_world [1, 0] [0] [a_jpg, b_jpg] ''pan''))
     = [(''success'', Some ''b.jpg''), (''error'', Some ''a.jpg'')]
   \<and> completion_order [1, 0] (length [a_jpg, b_jpg]) \<and> completion_order [0] 1"
  unfolding seq_results_b async_results_b seq_results_a_b async_results_a_b
  by (simp add: error_result_def extract_a_jpg completion_order_def upt_rec)

end
